theory Spec2Isabelle
  imports Main "HOL-Library.Sublist"
begin

unbundle bit_operations_syntax

section \<open>The OAuth2 token cache and loopback flow of main.go\<close>

text \<open>
  The program obtains an OAuth2 token either from the file \<^verbatim>\<open>token.json\<close> or, when
  that fails, from an interactive flow: it starts an HTTP server on port 8080, prints an
  authorization URL, waits for the redirect carrying the code, exchanges the code for a
  token and saves the token.

  The functions of main.go are embedded one by one. The library functions they call
  (\<^verbatim>\<open>os.Open\<close>, \<^verbatim>\<open>os.OpenFile\<close>, \<^verbatim>\<open>r.FormValue\<close>, \<^verbatim>\<open>http.Error\<close>, the encoder)
  are small models of their own; what varies from run to run (the JSON codec, the
  failures of the file system, the umask, the requests and their times, the oauth2
  configuration) is a parameter: the record \<open>env\<close> for the operating system and the
  libraries, the record \<open>Config\<close> for the methods of \<^verbatim>\<open>*oauth2.Config\<close>. Effects are
  explicit: every function takes the world (files, the port, the trace of events so far)
  and returns the world it leaves, and \<^verbatim>\<open>log.Fatalf\<close>, which ends the process, is the
  outcome \<open>Fatal\<close>.
\<close>

subsection \<open>Data\<close>

type_synonym path = string

text \<open>A file: its bytes and its permission bits (\<^verbatim>\<open>0600\<close> is \<open>384\<close>).\<close>

record file_data =
  content :: string
  perm :: nat

type_synonym filesystem = "path \<rightharpoonup> file_data"

text \<open>
  \<^verbatim>\<open>oauth2.Token\<close>, with the fields the JSON form carries. The expiry is a timestamp;
  \<open>0\<close> is the zero time.
\<close>

record Token =
  AccessToken :: string
  TokenType :: string
  RefreshToken :: string
  Expiry :: int

text \<open>\<^verbatim>\<open>&oauth2.Token{}\<close>: every field has its zero value.\<close>

definition zeroToken :: Token where
  "zeroToken = \<lparr>AccessToken = [], TokenType = [], RefreshToken = [], Expiry = 0\<rparr>"

datatype error =
    ErrNotExist
  | ErrPermission
  | ErrDecode
  | ErrEncode
  | ErrWrite
  | ErrExchange
  | ErrShutdown

text \<open>
  The four \<^verbatim>\<open>log.Fatalf\<close> calls of the modelled functions:
  \<^item> \<open>SaveTokenFailed\<close>: "Erro ao salvar o token: %v" (saveToken);
  \<^item> \<open>ServerStartFailed\<close>: "Falha ao iniciar o servidor: %v" (the server goroutine);
  \<^item> \<open>AuthCodeTimeout\<close>: "Tempo esgotado aguardando o codigo de autorizacao." (the select);
  \<^item> \<open>ExchangeFailed\<close>: "Erro ao trocar o codigo pelo token: %v" (after Exchange).
\<close>

datatype fatal =
    SaveTokenFailed error
  | ServerStartFailed
  | AuthCodeTimeout
  | ExchangeFailed error

datatype 'a outcome = Returned 'a | Fatal fatal

text \<open>
  The form data in the body of a request: none, the parameters of an
  \<^verbatim>\<open>application/x-www-form-urlencoded\<close> body, or the value fields of a
  \<^verbatim>\<open>multipart/form-data\<close> body.
\<close>

datatype form_body =
    NoBody
  | UrlEncoded "(string \<times> string) list"
  | Multipart "(string \<times> string) list"

text \<open>
  An HTTP request, as far as the handler reads it: the method, the parameters of the URL
  query in order, and the form data of the body. The handler is registered for every
  method and every path.
\<close>

record request =
  http_method :: string
  query :: "(string \<times> string) list"
  body_form :: form_body

text \<open>
  What the handler writes: the status, the Content-Type header when the handler sets one,
  and the body.
\<close>

record response =
  status :: nat
  content_type :: "string option"
  body :: string

datatype event =
    Printed string
  | LogPrinted error
  | LogFatal fatal
  | GoListenAndServe
  | Responded response
  | CodeReceived string
  | TimerFired
  | ShutdownCalled
  | ExchangeCalled string

text \<open>
  The world: the files, whether the listener of the server is open on port 8080, and the
  events so far. \<open>port_bound\<close> records what the program itself did to the listener: it
  is set by the bind and cleared by \<^verbatim>\<open>srv.Shutdown\<close> only.
\<close>

record world =
  files :: filesystem
  port_bound :: bool
  trace :: "event list"

text \<open>\<^verbatim>\<open>config.Client(ctx, tok)\<close>: an HTTP client around the token pointer (\<open>None\<close> is nil).\<close>

datatype http_Client = Client "Token option"

subsection \<open>The libraries and the operating system\<close>

text \<open>
  \<^item> \<open>json_Marshal\<close>: the JSON text of a token, \<open>None\<close> when marshalling fails;
  \<^item> \<open>json_Decode\<close>: \<^verbatim>\<open>Decoder.Decode\<close> of the bytes into the given token: the token
    as it is left, and the error;
  \<^item> \<open>open_denied\<close>: \<^verbatim>\<open>os.Open\<close> fails on this path although the file exists;
  \<^item> \<open>openfile_denied\<close>: \<^verbatim>\<open>os.OpenFile\<close> fails on this path;
  \<^item> \<open>umask\<close>: the file mode creation mask of the process;
  \<^item> \<open>write_cut\<close>: \<open>Some n\<close> when the write to the open file fails after \<open>n\<close> bytes;
  \<^item> \<open>bind_ok\<close>: \<^verbatim>\<open>ListenAndServe\<close> can bind port 8080;
  \<^item> \<open>requests\<close>: the requests that reach the server, in the order in which they are
    served, each with the second at which it is served, counted from the start of the wait;
  \<^item> \<open>shutdown_err\<close>: \<^verbatim>\<open>srv.Shutdown\<close> returns an error.
\<close>

record env =
  json_Marshal :: "Token \<Rightarrow> string option"
  json_Decode :: "string \<Rightarrow> Token \<Rightarrow> Token \<times> error option"
  open_denied :: "path \<Rightarrow> bool"
  openfile_denied :: "path \<Rightarrow> bool"
  umask :: nat
  write_cut :: "nat option"
  bind_ok :: bool
  requests :: "(nat \<times> request) list"
  shutdown_err :: bool

text \<open>
  The two methods of \<^verbatim>\<open>*oauth2.Config\<close> the flow calls: \<open>AuthCodeURL\<close> maps the state
  value to the authorization URL (with \<^verbatim>\<open>oauth2.AccessTypeOffline\<close>), \<open>Exchange\<close> maps
  a code to a token or an error.
\<close>

record Config =
  AuthCodeURL :: "string \<Rightarrow> string"
  Exchange :: "string \<Rightarrow> error + Token"

definition nl :: string where
  "nl = [CHR 0x0A]"

definition emit :: "event \<Rightarrow> world \<Rightarrow> world" where
  "emit e w = w\<lparr>trace := trace w @ [e]\<rparr>"

definition emits :: "event list \<Rightarrow> world \<Rightarrow> world" where
  "emits es w = w\<lparr>trace := trace w @ es\<rparr>"

text \<open>
  \<^verbatim>\<open>log.Fatalf\<close> logs and calls \<^verbatim>\<open>os.Exit(1)\<close>: the process ends. The world is left
  as the program had it at that moment; nothing is closed or shut down on the way out.
\<close>

definition log_Fatalf :: "fatal \<Rightarrow> world \<Rightarrow> 'a outcome \<times> world" where
  "log_Fatalf f w = (Fatal f, emit (LogFatal f) w)"

text \<open>\<^verbatim>\<open>os.Open(file)\<close>, then reading the file: the bytes, or the error of the open.\<close>

definition os_Open :: "env \<Rightarrow> filesystem \<Rightarrow> path \<Rightarrow> error + string" where
  "os_Open E fs p =
     (case fs p of
        None \<Rightarrow> Inl ErrNotExist
      | Some f \<Rightarrow> if open_denied E p then Inl ErrPermission else Inr (content f))"

text \<open>
  \<^verbatim>\<open>os.OpenFile(path, os.O_RDWR|os.O_CREATE|os.O_TRUNC, 0600)\<close>: a missing file is
  created empty with mode \<^verbatim>\<open>0600 &^ umask\<close> (the bits of 0600 that the mask does not
  clear), an existing file is cut to length zero and keeps its mode.
\<close>

definition created_mode :: "env \<Rightarrow> nat" where
  "created_mode E = 384 - (384 AND umask E)"

definition os_OpenFile :: "env \<Rightarrow> filesystem \<Rightarrow> path \<Rightarrow> error + filesystem" where
  "os_OpenFile E fs p =
     (if openfile_denied E p then Inl ErrPermission
      else Inr (fs(p \<mapsto> (case fs p of
                           None \<Rightarrow> \<lparr>content = [], perm = created_mode E\<rparr>
                         | Some f \<Rightarrow> f\<lparr>content := []\<rparr>))))"

text \<open>Appending bytes to the open file.\<close>

definition file_Write :: "filesystem \<Rightarrow> path \<Rightarrow> string \<Rightarrow> filesystem" where
  "file_Write fs p bs =
     (case fs p of
        None \<Rightarrow> fs
      | Some f \<Rightarrow> fs(p \<mapsto> f\<lparr>content := content f @ bs\<rparr>))"

text \<open>
  \<^verbatim>\<open>json.NewEncoder(f).Encode(token)\<close>: marshal the token, then write the text and a
  newline in one write. A marshalling error writes nothing; a write error leaves the bytes
  written before it.
\<close>

definition Encode :: "env \<Rightarrow> filesystem \<Rightarrow> path \<Rightarrow> Token \<Rightarrow> error option \<times> filesystem" where
  "Encode E fs p token =
     (case json_Marshal E token of
        None \<Rightarrow> (Some ErrEncode, fs)
      | Some js \<Rightarrow>
          (case write_cut E of
             None \<Rightarrow> (None, file_Write fs p (js @ nl))
           | Some n \<Rightarrow> (Some ErrWrite, file_Write fs p (take n (js @ nl)))))"

subsection \<open>tokenFromFile\<close>

text \<open>
  Both results of the Go function are kept: on a decoding error the token pointer is not
  nil, and the error is not nil either.
\<close>

definition tokenFromFile :: "env \<Rightarrow> filesystem \<Rightarrow> path \<Rightarrow> Token option \<times> error option" where
  "tokenFromFile E fs file =
     (case os_Open E fs file of
        Inl err \<Rightarrow> (None, Some err)
      | Inr bytes \<Rightarrow>
          (case json_Decode E bytes zeroToken of
             (tok, err) \<Rightarrow> (Some tok, err)))"

subsection \<open>saveToken\<close>

text \<open>The error that \<open>Encode\<close> returns is dropped, as in the source.\<close>

definition saveToken :: "env \<Rightarrow> path \<Rightarrow> Token \<Rightarrow> world \<Rightarrow> unit outcome \<times> world" where
  "saveToken E p token w =
     (let w1 = emit (Printed (''Salvando token em: '' @ p @ nl)) w in
      case os_OpenFile E (files w1) p of
        Inl err \<Rightarrow> log_Fatalf (SaveTokenFailed err) w1
      | Inr fs1 \<Rightarrow> (Returned (), w1\<lparr>files := snd (Encode E fs1 p token)\<rparr>))"

subsection \<open>getTokenFromWeb\<close>

text \<open>
  \<^verbatim>\<open>r.Form\<close> after \<^verbatim>\<open>r.FormValue\<close> has parsed the request: the parameters of a
  url-encoded body come first, and are read only when the method is POST, PUT or PATCH;
  then the parameters of the URL query; the value fields of a multipart body come last.
\<close>

definition Form :: "request \<Rightarrow> (string \<times> string) list" where
  "Form r =
     (case body_form r of
        NoBody \<Rightarrow> query r
      | UrlEncoded ps \<Rightarrow>
          (if http_method r \<in> {''POST'', ''PUT'', ''PATCH''} then ps @ query r else query r)
      | Multipart ps \<Rightarrow> query r @ ps)"

text \<open>
  \<^verbatim>\<open>r.FormValue("code")\<close>: the first value of the parameter in \<^verbatim>\<open>r.Form\<close>, the empty
  string when there is none.
\<close>

definition FormValue :: "request \<Rightarrow> string \<Rightarrow> string" where
  "FormValue r k = (case map_of (Form r) k of None \<Rightarrow> [] | Some v \<Rightarrow> v)"

text \<open>
  The request a browser sends when it follows the redirect of the authorization server:
  a GET without a body.
\<close>

definition redirect_request :: "request \<Rightarrow> bool" where
  "redirect_request r = (http_method r = ''GET'' \<and> body_form r = NoBody)"

text \<open>The two texts of the handler, as UTF-8 bytes:
  "Codigo nao encontrado" and "Autorizacao recebida! Voce pode fechar esta janela.",
  with their accents.\<close>

definition msg_not_found :: string where
  "msg_not_found =
     ''C'' @ [CHR 0xC3, CHR 0xB3] @ ''digo n'' @ [CHR 0xC3, CHR 0xA3] @ ''o encontrado''"

definition msg_received :: string where
  "msg_received =
     ''Autoriza'' @ [CHR 0xC3, CHR 0xA7, CHR 0xC3, CHR 0xA3] @ ''o recebida! Voc''
       @ [CHR 0xC3, CHR 0xAA] @ '' pode fechar esta janela.''"

text \<open>\<^verbatim>\<open>http.Error(w, error, code)\<close>: a plain-text response with the given status.\<close>

definition http_Error :: "string \<Rightarrow> nat \<Rightarrow> response" where
  "http_Error msg code =
     \<lparr>status = code, content_type = Some ''text/plain; charset=utf-8'', body = msg @ nl\<rparr>"

text \<open>
  The handler registered on "/": the response, and the code it sends on \<^verbatim>\<open>codeCh\<close>
  (\<open>None\<close> when it returns without sending). Writing the body without a status gives 200.
\<close>

definition handler :: "request \<Rightarrow> response \<times> string option" where
  "handler r =
     (let code = FormValue r ''code'' in
      if code = [] then (http_Error msg_not_found 400, None)
      else (\<lparr>status = 200, content_type = None, body = msg_received @ nl\<rparr>, Some code))"

text \<open>
  The server while the main goroutine waits in the select: each request is handled in
  turn; the first handler that sends on the channel ends the wait. \<open>None\<close>: no request
  sent a code before the timer fired.
\<close>

fun serve :: "request list \<Rightarrow> response list \<times> string option" where
  "serve [] = ([], None)"
| "serve (r # rs) =
     (case handler r of
        (resp, Some code) \<Rightarrow> ([resp], Some code)
      | (resp, None) \<Rightarrow> (case serve rs of (resps, sel) \<Rightarrow> (resp # resps, sel)))"

text \<open>
  \<^verbatim>\<open>time.After(2 * time.Minute)\<close>: the wait ends when the timer fires. The requests
  that count are those served before that; a request served in the very second in which
  the timer fires is taken to come too late.
\<close>

definition timeout_seconds :: nat where
  "timeout_seconds = 2 * 60"

definition before_timeout :: "(nat \<times> request) list \<Rightarrow> request list" where
  "before_timeout arrivals = map snd (filter (\<lambda>(t, r). t < timeout_seconds) arrivals)"

text \<open>
  The server goroutine runs beside the main goroutine; when it cannot bind the port its
  \<^verbatim>\<open>log.Fatalf\<close> ends the process while the main goroutine is printing the URL or
  waiting. The model takes the order in which the URL is printed first.
\<close>

definition getTokenFromWeb :: "env \<Rightarrow> Config \<Rightarrow> world \<Rightarrow> Token outcome \<times> world" where
  "getTokenFromWeb E config w =
     (let w1 = (emit GoListenAndServe w)\<lparr>port_bound := bind_ok E\<rparr>;
          authURL = AuthCodeURL config ''state-token'';
          w2 = emit (Printed (''Abra o seguinte link no seu navegador:'' @ nl @ authURL @ nl)) w1
      in
      if \<not> bind_ok E then log_Fatalf ServerStartFailed w2
      else
        (case serve (before_timeout (requests E)) of
           (resps, None) \<Rightarrow>
             log_Fatalf AuthCodeTimeout (emit TimerFired (emits (map Responded resps) w2))
         | (resps, Some code) \<Rightarrow>
             (let w3 = emit (CodeReceived code) (emits (map Responded resps) w2);
                  w4 = (emit ShutdownCalled w3)\<lparr>port_bound := False\<rparr>;
                  w5 = (if shutdown_err E then emit (LogPrinted ErrShutdown) w4 else w4);
                  w6 = emit (ExchangeCalled code) w5
              in
              case Exchange config code of
                Inl err \<Rightarrow> log_Fatalf (ExchangeFailed err) w6
              | Inr tok \<Rightarrow> (Returned tok, w6))))"

subsection \<open>getClient\<close>

definition getClient :: "env \<Rightarrow> Config \<Rightarrow> world \<Rightarrow> http_Client outcome \<times> world" where
  "getClient E config w =
     (let tokFile = ''token.json'' in
      case tokenFromFile E (files w) tokFile of
        (tok, None) \<Rightarrow> (Returned (Client tok), w)
      | (tok0, Some err) \<Rightarrow>
          (case getTokenFromWeb E config w of
             (Fatal f, w1) \<Rightarrow> (Fatal f, w1)
           | (Returned tok, w1) \<Rightarrow>
               (case saveToken E tokFile tok w1 of
                  (Fatal f, w2) \<Rightarrow> (Fatal f, w2)
                | (Returned u, w2) \<Rightarrow> (Returned (Client (Some tok)), w2))))"

subsection \<open>The states of the file system during a save\<close>

text \<open>
  saveToken changes the file system twice: \<^verbatim>\<open>os.OpenFile\<close> creates or truncates the
  file, and \<open>Encode\<close> writes into it. These are the file systems in that order, starting
  with the one before the call; a process that dies during the save leaves one of them
  (a write that was cut short is \<open>write_cut\<close>).
\<close>

definition saveToken_steps :: "env \<Rightarrow> path \<Rightarrow> Token \<Rightarrow> filesystem \<Rightarrow> filesystem list" where
  "saveToken_steps E p token fs =
     (case os_OpenFile E fs p of
        Inl err \<Rightarrow> [fs]
      | Inr fs1 \<Rightarrow> [fs, fs1, snd (Encode E fs1 p token)])"

text \<open>The bytes of a file, \<open>None\<close> when there is no such file.\<close>

definition bytes_at :: "filesystem \<Rightarrow> path \<Rightarrow> string option" where
  "bytes_at fs p = map_option content (fs p)"

text \<open>The events a run added to the trace.\<close>

definition new_events :: "world \<Rightarrow> world \<Rightarrow> event list" where
  "new_events w w' = drop (length (trace w)) (trace w')"

text \<open>The codes passed to \<^verbatim>\<open>config.Exchange\<close> in a trace, in order.\<close>

fun exchanges :: "event list \<Rightarrow> string list" where
  "exchanges [] = []"
| "exchanges (ExchangeCalled c # es) = c # exchanges es"
| "exchanges (e # es) = exchanges es"

subsection \<open>The serialized form of a token\<close>

text \<open>
  Modelled from the spec: the serialized form of a credential. encoding/json and the JSON
  tags of \<^verbatim>\<open>oauth2.Token\<close> are not part of the repository; the spec gives the stored
  file as a "whole-file JSON-like serialization of Credential", a credential having the
  fields access_token, token_type, an optional refresh_token and an expiry timestamp.
  The text is a JSON object with these members in this order; the two optional strings
  are left out when empty, strings are quoted with the quote and the backslash escaped,
  and the expiry is written as a decimal integer (Go writes the time as an RFC 3339
  string). The parser reads an object whose members are any of the four, in this order,
  into the given token, and accepts white space after the closing brace only.
\<close>

definition dq :: char where "dq = CHR 0x22"
definition bsl :: char where "bsl = CHR 0x5C"

fun escape :: "string \<Rightarrow> string" where
  "escape [] = []"
| "escape (c # cs) = (if c = dq \<or> c = bsl then bsl # c # escape cs else c # escape cs)"

definition quote :: "string \<Rightarrow> string" where
  "quote s = dq # escape s @ [dq]"

fun unescape :: "string \<Rightarrow> (string \<times> string) option" where
  "unescape [] = None"
| "unescape (c # cs) =
     (if c = dq then Some ([], cs)
      else if c = bsl then
        (case cs of
           [] \<Rightarrow> None
         | d # ds \<Rightarrow>
             if d = dq \<or> d = bsl
             then (case unescape ds of None \<Rightarrow> None | Some (s, rest) \<Rightarrow> Some (d # s, rest))
             else None)
      else (case unescape cs of None \<Rightarrow> None | Some (s, rest) \<Rightarrow> Some (c # s, rest)))"

definition unquote :: "string \<Rightarrow> (string \<times> string) option" where
  "unquote s = (case s of [] \<Rightarrow> None | c # cs \<Rightarrow> if c = dq then unescape cs else None)"

definition is_digit :: "char \<Rightarrow> bool" where
  "is_digit c = (48 \<le> (of_char c :: nat) \<and> (of_char c :: nat) \<le> 57)"

definition digit_of :: "nat \<Rightarrow> char" where
  "digit_of n = char_of (48 + n)"

function show_nat :: "nat \<Rightarrow> string" where
  "show_nat n = (if n < 10 then [digit_of n] else show_nat (n div 10) @ [digit_of (n mod 10)])"
  by pat_completeness auto
termination
  by (relation "measure id") auto

declare show_nat.simps [simp del]

definition show_int :: "int \<Rightarrow> string" where
  "show_int i = (if i < 0 then ''-'' @ show_nat (nat (- i)) else show_nat (nat i))"

definition read_nat :: "string \<Rightarrow> (nat \<times> string) option" where
  "read_nat s =
     (if takeWhile is_digit s = [] then None
      else Some (foldl (\<lambda>a c. 10 * a + (of_char c - 48)) 0 (takeWhile is_digit s),
                 dropWhile is_digit s))"

definition read_int :: "string \<Rightarrow> (int \<times> string) option" where
  "read_int s =
     (case s of
        [] \<Rightarrow> None
      | c # cs \<Rightarrow>
          if c = CHR ''-''
          then (case read_nat cs of None \<Rightarrow> None | Some (n, rest) \<Rightarrow> Some (- int n, rest))
          else (case read_nat s of None \<Rightarrow> None | Some (n, rest) \<Rightarrow> Some (int n, rest)))"

definition strip :: "string \<Rightarrow> string \<Rightarrow> string option" where
  "strip pre s = (if prefix pre s then Some (drop (length pre) s) else None)"

definition member ::
  "bool \<Rightarrow> string \<Rightarrow> (string \<Rightarrow> ('v \<times> string) option) \<Rightarrow> string \<Rightarrow> (('v option \<times> bool) \<times> string) option" where
  "member first k val s =
     (case strip ((if first then [] else '','') @ quote k @ '':'') s of
        None \<Rightarrow> Some ((None, first), s)
      | Some s1 \<Rightarrow> (case val s1 of None \<Rightarrow> None | Some (v, s2) \<Rightarrow> Some ((Some v, False), s2)))"

definition or_keep :: "'v option \<Rightarrow> 'v \<Rightarrow> 'v" where
  "or_keep v old = (case v of None \<Rightarrow> old | Some x \<Rightarrow> x)"

definition is_space :: "char \<Rightarrow> bool" where
  "is_space c = (c = CHR '' '' \<or> c = CHR 0x09 \<or> c = CHR 0x0A \<or> c = CHR 0x0D)"

definition credential_text :: "Token \<Rightarrow> string" where
  "credential_text t =
     ''{'' @ quote ''access_token'' @ '':'' @ quote (AccessToken t)
     @ (if TokenType t = [] then [] else '','' @ quote ''token_type'' @ '':'' @ quote (TokenType t))
     @ (if RefreshToken t = [] then []
        else '','' @ quote ''refresh_token'' @ '':'' @ quote (RefreshToken t))
     @ '','' @ quote ''expiry'' @ '':'' @ show_int (Expiry t) @ ''}''"

definition credential_parse :: "string \<Rightarrow> Token \<Rightarrow> Token option" where
  "credential_parse text t =
     (case strip ''{'' text of
        None \<Rightarrow> None
      | Some s0 \<Rightarrow>
     (case member True ''access_token'' unquote s0 of
        None \<Rightarrow> None
      | Some ((a, f1), s1) \<Rightarrow>
     (case member f1 ''token_type'' unquote s1 of
        None \<Rightarrow> None
      | Some ((tt, f2), s2) \<Rightarrow>
     (case member f2 ''refresh_token'' unquote s2 of
        None \<Rightarrow> None
      | Some ((rt, f3), s3) \<Rightarrow>
     (case member f3 ''expiry'' read_int s3 of
        None \<Rightarrow> None
      | Some ((e, f4), s4) \<Rightarrow>
     (case strip ''}'' s4 of
        None \<Rightarrow> None
      | Some s5 \<Rightarrow>
          if list_all is_space s5
          then Some \<lparr>AccessToken = or_keep a (AccessToken t), TokenType = or_keep tt (TokenType t),
                     RefreshToken = or_keep rt (RefreshToken t), Expiry = or_keep e (Expiry t)\<rparr>
          else None))))))"

definition credential_Decode :: "string \<Rightarrow> Token \<Rightarrow> Token \<times> error option" where
  "credential_Decode text t =
     (case credential_parse text t of None \<Rightarrow> (t, Some ErrDecode) | Some t' \<Rightarrow> (t', None))"

subsection \<open>A sample environment\<close>

text \<open>
  A small codec, a configuration and a world on which the theorems below are run. The
  codec writes the access token between braces and reads it back; like JSON, it reads
  \<open>{}\<close> as a token with no field set and rejects a text that lacks the closing brace.
\<close>

definition sample_Marshal :: "Token \<Rightarrow> string option" where
  "sample_Marshal t =
     (if CHR ''}'' \<in> set (AccessToken t) then None else Some (''{'' @ AccessToken t @ ''}''))"

definition sample_Decode :: "string \<Rightarrow> Token \<Rightarrow> Token \<times> error option" where
  "sample_Decode bs t =
     (case bs of
        [] \<Rightarrow> (t, Some ErrDecode)
      | c # rest \<Rightarrow>
          if c = CHR ''{'' \<and> CHR ''}'' \<in> set rest
          then (t\<lparr>AccessToken := takeWhile (\<lambda>x. x \<noteq> CHR ''}'') rest\<rparr>, None)
          else (t, Some ErrDecode))"

text \<open>Two redirects, one without a code and one with the code \<open>abc123\<close>.\<close>

definition get_without_code :: request where
  "get_without_code =
     \<lparr>http_method = ''GET'', query = [(''state'', ''state-token'')], body_form = NoBody\<rparr>"

definition get_with_code :: request where
  "get_with_code =
     \<lparr>http_method = ''GET'', query = [(''state'', ''state-token''), (''code'', ''abc123'')],
      body_form = NoBody\<rparr>"

definition sample_env :: env where
  "sample_env =
     \<lparr>json_Marshal = sample_Marshal, json_Decode = sample_Decode,
      open_denied = (\<lambda>p. False), openfile_denied = (\<lambda>p. False), umask = 18,
      write_cut = None, bind_ok = True,
      requests = [(3, get_without_code), (7, get_with_code)],
      shutdown_err = False\<rparr>"

definition sample_config :: Config where
  "sample_config =
     \<lparr>AuthCodeURL = (\<lambda>st. ''https://auth.example/o/oauth2/auth?state='' @ st),
      Exchange = (\<lambda>c. if c = ''abc123''
                       then Inr (zeroToken\<lparr>AccessToken := ''ya29.'' @ c, TokenType := ''Bearer''\<rparr>)
                       else Inl ErrExchange)\<rparr>"

definition sample_token :: Token where
  "sample_token = zeroToken\<lparr>AccessToken := ''ya29.abc123'', TokenType := ''Bearer''\<rparr>"

definition empty_world :: world where
  "empty_world = \<lparr>files = Map.empty, port_bound = False, trace = []\<rparr>"

text \<open>A world whose \<^verbatim>\<open>token.json\<close> holds the given bytes with the given mode.\<close>

definition world_with :: "string \<Rightarrow> nat \<Rightarrow> world" where
  "world_with bs m =
     \<lparr>files = [''token.json'' \<mapsto> \<lparr>content = bs, perm = m\<rparr>], port_bound = False, trace = []\<rparr>"

text \<open>The sample environment with the serialized form above as its codec.\<close>

definition credential_env :: env where
  "credential_env =
     sample_env\<lparr>json_Marshal := (\<lambda>t. Some (credential_text t)), json_Decode := credential_Decode\<rparr>"


section \<open>Properties\<close>

subsection \<open>Reading the token file\<close>

lemma tokenFromFile_hit:
  "fs p = Some f \<Longrightarrow> \<not> open_denied E p \<Longrightarrow> json_Decode E (content f) zeroToken = (t, None)
   \<Longrightarrow> tokenFromFile E fs p = (Some t, None)"
  by (simp add: tokenFromFile_def os_Open_def)

lemma tokenFromFile_absent: "fs p = None \<Longrightarrow> tokenFromFile E fs p = (None, Some ErrNotExist)"
  by (simp add: tokenFromFile_def os_Open_def)

lemma tokenFromFile_malformed:
  "fs p = Some f \<Longrightarrow> \<not> open_denied E p \<Longrightarrow> json_Decode E (content f) zeroToken = (t, Some err)
   \<Longrightarrow> tokenFromFile E fs p = (Some t, Some err)"
  by (simp add: tokenFromFile_def os_Open_def)

lemma getClient_miss:
  "snd (tokenFromFile E (files w) ''token.json'') \<noteq> None \<Longrightarrow>
   getClient E config w =
     (case getTokenFromWeb E config w of
             (Fatal f, w1) \<Rightarrow> (Fatal f, w1)
           | (Returned tok, w1) \<Rightarrow>
               (case saveToken E ''token.json'' tok w1 of
                  (Fatal f, w2) \<Rightarrow> (Fatal f, w2)
                | (Returned u, w2) \<Rightarrow> (Returned (Client (Some tok)), w2)))"
  by (auto simp add: getClient_def Let_def split: prod.splits option.splits)

lemma getTokenFromWeb_files: "files (snd (getTokenFromWeb E config w)) = files w"
  by (simp add: getTokenFromWeb_def Let_def log_Fatalf_def emit_def emits_def split: prod.splits option.splits sum.splits)

lemma getTokenFromWeb_indep_files:
  "getTokenFromWeb E config (w\<lparr>files := fs\<rparr>) = (case getTokenFromWeb E config w of (r, w') \<Rightarrow> (r, w'\<lparr>files := fs\<rparr>))"
  by (simp add: getTokenFromWeb_def Let_def log_Fatalf_def emit_def emits_def split: prod.splits option.splits sum.splits)

lemma saveToken_outcome:
  "fst (saveToken E p t w) = (if openfile_denied E p then Fatal (SaveTokenFailed ErrPermission) else Returned ())"
  by (simp add: saveToken_def Let_def os_OpenFile_def log_Fatalf_def)

lemma saveToken_trace:
  "trace (snd (saveToken E p t w)) = trace w @ Printed (''Salvando token em: '' @ p @ nl) #
      (if openfile_denied E p then [LogFatal (SaveTokenFailed ErrPermission)] else [])"
  by (simp add: saveToken_def Let_def os_OpenFile_def log_Fatalf_def emit_def)

lemma saveToken_bytes:
  "bytes_at (files (snd (saveToken E p t w))) p =
     (if openfile_denied E p then bytes_at (files w) p
      else case json_Marshal E t of
             None \<Rightarrow> Some []
           | Some js \<Rightarrow> (case write_cut E of None \<Rightarrow> Some (js @ nl) | Some n \<Rightarrow> Some (take n (js @ nl))))"
  by (simp add: saveToken_def Let_def os_OpenFile_def log_Fatalf_def emit_def Encode_def
      file_Write_def bytes_at_def split: option.splits)

lemma getClient_hit:
  "tokenFromFile E (files w) ''token.json'' = (tok, None) \<Longrightarrow>
   getClient E config w = (Returned (Client tok), w)"
  by (simp add: getClient_def)

subsection \<open>The loopback receiver and the flow\<close>

lemma Form_redirect: "redirect_request r \<Longrightarrow> Form r = query r"
  by (simp add: redirect_request_def Form_def)

lemma FormValue_redirect:
  "redirect_request r \<Longrightarrow>
   FormValue r k = (case map_of (query r) k of None \<Rightarrow> [] | Some v \<Rightarrow> v)"
  by (simp add: FormValue_def Form_redirect)

lemma FormValue_redirect_missing:
  "redirect_request r \<Longrightarrow>
   FormValue r k = [] \<longleftrightarrow> (map_of (query r) k = None \<or> map_of (query r) k = Some [])"
  by (auto simp: FormValue_redirect split: option.splits)

text \<open>
  The handler does not look at the method: a POST whose url-encoded body carries the
  code is answered like a redirect with the code, although its URL has no code.
\<close>

lemma handler_post_body_code:
  "handler \<lparr>http_method = ''POST'', query = [], body_form = UrlEncoded [(''code'', ''abc123'')]\<rparr>
     = (\<lparr>status = 200, content_type = None, body = msg_received @ nl\<rparr>, Some ''abc123'')"
  by (simp add: handler_def FormValue_def Form_def)

lemma handler_missing:
  "FormValue r ''code'' = [] \<Longrightarrow> handler r = (http_Error msg_not_found 400, None)"
  by (simp add: handler_def)

lemma handler_code:
  "FormValue r ''code'' \<noteq> [] \<Longrightarrow>
   handler r = (\<lparr>status = 200, content_type = None, body = msg_received @ nl\<rparr>, Some (FormValue r ''code''))"
  by (simp add: handler_def)


lemma serve_first_code:
  "\<forall>r \<in> set bad. FormValue r ''code'' = [] \<Longrightarrow> FormValue r ''code'' \<noteq> [] \<Longrightarrow>
   serve (bad @ r # rest) =
     (map (\<lambda>r. http_Error msg_not_found 400) bad @ [\<lparr>status = 200, content_type = None, body = msg_received @ nl\<rparr>],
      Some (FormValue r ''code''))"
  by (induction bad) (simp_all add: handler_missing handler_code)

lemma serve_None:
  "snd (serve rs) = None \<longleftrightarrow> (\<forall>r \<in> set rs. FormValue r ''code'' = [])"
  by (induction rs) (auto simp: handler_def Let_def split: prod.splits)

lemma getTokenFromWeb_code:
  assumes "bind_ok E" and "serve (before_timeout (requests E)) = (resps, Some code)"
  shows "getTokenFromWeb E config w =
     (case Exchange config code of Inl err \<Rightarrow> Fatal (ExchangeFailed err) | Inr tok \<Rightarrow> Returned tok,
      w\<lparr>port_bound := False,
        trace := trace w @ [GoListenAndServe,
            Printed (''Abra o seguinte link no seu navegador:'' @ nl @ AuthCodeURL config ''state-token'' @ nl)]
          @ map Responded resps @ [CodeReceived code, ShutdownCalled]
          @ (if shutdown_err E then [LogPrinted ErrShutdown] else [])
          @ [ExchangeCalled code]
          @ (case Exchange config code of Inl err \<Rightarrow> [LogFatal (ExchangeFailed err)] | Inr tok \<Rightarrow> [])\<rparr>)"
  using assms
  by (simp add: getTokenFromWeb_def Let_def emit_def emits_def log_Fatalf_def split: sum.splits)

lemma getTokenFromWeb_timeout:
  assumes "bind_ok E" and "serve (before_timeout (requests E)) = (resps, None)"
  shows "getTokenFromWeb E config w =
     (Fatal AuthCodeTimeout,
      w\<lparr>port_bound := True,
        trace := trace w @ [GoListenAndServe,
            Printed (''Abra o seguinte link no seu navegador:'' @ nl @ AuthCodeURL config ''state-token'' @ nl)]
          @ map Responded resps @ [TimerFired, LogFatal AuthCodeTimeout]\<rparr>)"
  using assms
  by (simp add: getTokenFromWeb_def Let_def emit_def emits_def log_Fatalf_def)

lemma getTokenFromWeb_bind_failed:
  assumes "\<not> bind_ok E"
  shows "getTokenFromWeb E config w =
     (Fatal ServerStartFailed,
      w\<lparr>port_bound := False,
        trace := trace w @ [GoListenAndServe,
            Printed (''Abra o seguinte link no seu navegador:'' @ nl @ AuthCodeURL config ''state-token'' @ nl),
            LogFatal ServerStartFailed]\<rparr>)"
  using assms
  by (simp add: getTokenFromWeb_def Let_def emit_def emits_def log_Fatalf_def)

lemma getTokenFromWeb_starts:
  "\<exists>more. trace (snd (getTokenFromWeb E config w)) =
     trace w @ GoListenAndServe #
       Printed (''Abra o seguinte link no seu navegador:'' @ nl @ AuthCodeURL config ''state-token'' @ nl) # more"
proof (cases "bind_ok E")
  case False
  then show ?thesis by (simp add: getTokenFromWeb_bind_failed)
next
  case True
  obtain resps sel where s: "serve (before_timeout (requests E)) = (resps, sel)"
    by (cases "serve (before_timeout (requests E))")
  show ?thesis
  proof (cases sel)
    case None
    then show ?thesis using getTokenFromWeb_timeout [OF True s [unfolded None]] by simp
  next
    case (Some code)
    then show ?thesis using getTokenFromWeb_code [OF True s [unfolded Some]] by simp
  qed
qed

lemma exchanges_append: "exchanges (xs @ ys) = exchanges xs @ exchanges ys"
  by (induction xs rule: exchanges.induct) simp_all

lemma exchanges_none: "(\<And>c. ExchangeCalled c \<notin> set es) \<Longrightarrow> exchanges es = []"
  by (induction es rule: exchanges.induct) auto

lemma exchanges_Responded: "exchanges (map Responded rs) = []"
  by (rule exchanges_none) auto

lemma split_after:
  "A @ x # B = pre @ e # post \<Longrightarrow> e \<notin> set A \<Longrightarrow> e \<noteq> x \<Longrightarrow> x \<in> set pre"
  by (auto simp: append_eq_append_conv2 append_eq_Cons_conv Cons_eq_append_conv)

subsection \<open>The cached token\<close>

text \<open>
  C1. When the token file loads (tokenFromFile returns no error), getClient returns the
  client of the loaded token at once and leaves the world as it found it: no server is
  started, no URL is printed, no code is exchanged, nothing is written.
\<close>

theorem getClient_cache_hit: "snd (tokenFromFile E (files w) ''token.json'') = None \<Longrightarrow>
  getClient E config w = (Returned (Client (fst (tokenFromFile E (files w) ''token.json''))), w)
  \<and> new_events w (snd (getClient E config w)) = []
  \<and> port_bound (snd (getClient E config w)) = port_bound w"
proof -
  assume hit: "snd (tokenFromFile E (files w) ''token.json'') = None"
  obtain tok where "tokenFromFile E (files w) ''token.json'' = (tok, None)"
    using hit by (cases "tokenFromFile E (files w) ''token.json''") simp
  then show ?thesis
    by (simp add: getClient_hit new_events_def)
qed

theorem getClient_cache_hit_witness:
  "snd (tokenFromFile sample_env (files (world_with ''{ya29.abc123}'' 384)) ''token.json'') = None
   \<and> getClient sample_env sample_config (world_with ''{ya29.abc123}'' 384)
       = (Returned (Client (Some (zeroToken\<lparr>AccessToken := ''ya29.abc123''\<rparr>))), world_with ''{ya29.abc123}'' 384)"
  using getClient_cache_hit [of sample_env "world_with ''{ya29.abc123}'' 384" sample_config]
  by (simp add: tokenFromFile_def os_Open_def world_with_def sample_env_def sample_Decode_def)

text \<open>
  C4. A token file that does not decode is handled as a missing one. tokenFromFile returns
  an error in both cases and nothing is fatal: getClient goes on into the interactive
  flow (the server is started and the URL printed, as the first events of the run) and
  then saves the token that the flow returns, over the malformed text. The outcome, the
  trace and the bytes saved are those of the run without the file.
\<close>

theorem malformed_file_like_absent:
  assumes "files w ''token.json'' = Some f" and "\<not> open_denied E ''token.json''"
    and "snd (json_Decode E (content f) zeroToken) = Some err"
    and "w0 = w\<lparr>files := (files w)(''token.json'' := None)\<rparr>"
  shows "tokenFromFile E (files w) ''token.json'' = (Some (fst (json_Decode E (content f) zeroToken)), Some err)
     \<and> tokenFromFile E (files w0) ''token.json'' = (None, Some ErrNotExist)
     \<and> getClient E config w =
         (case getTokenFromWeb E config w of
            (Fatal x, w1) \<Rightarrow> (Fatal x, w1)
          | (Returned tok, w1) \<Rightarrow>
              (case saveToken E ''token.json'' tok w1 of
                 (Fatal x, w2) \<Rightarrow> (Fatal x, w2)
               | (Returned u, w2) \<Rightarrow> (Returned (Client (Some tok)), w2)))
     \<and> take 2 (new_events w (snd (getClient E config w))) =
         [GoListenAndServe,
          Printed (''Abra o seguinte link no seu navegador:'' @ nl @ AuthCodeURL config ''state-token'' @ nl)]
     \<and> (\<forall>tok js. fst (getTokenFromWeb E config w) = Returned tok
            \<and> \<not> openfile_denied E ''token.json'' \<and> json_Marshal E tok = Some js \<and> write_cut E = None
          \<longrightarrow> fst (getClient E config w) = Returned (Client (Some tok))
            \<and> bytes_at (files (snd (getClient E config w))) ''token.json'' = Some (js @ nl)
            \<and> bytes_at (files (snd (getClient E config w0))) ''token.json'' = Some (js @ nl))
     \<and> fst (getClient E config w) = fst (getClient E config w0)
     \<and> trace (snd (getClient E config w)) = trace (snd (getClient E config w0))"
proof -
  have l1: "tokenFromFile E (files w) ''token.json'' = (Some (fst (json_Decode E (content f) zeroToken)), Some err)"
    using assms(1-3) by (cases "json_Decode E (content f) zeroToken") (simp add: tokenFromFile_def os_Open_def)
  have l2: "tokenFromFile E (files w0) ''token.json'' = (None, Some ErrNotExist)"
    using assms(4) by (simp add: tokenFromFile_absent)
  have m1: "snd (tokenFromFile E (files w) ''token.json'') \<noteq> None" using l1 by simp
  have m2: "snd (tokenFromFile E (files w0) ''token.json'') \<noteq> None" using l2 by simp
  obtain r w1 where g: "getTokenFromWeb E config w = (r, w1)"
    by (cases "getTokenFromWeb E config w")
  have g0: "getTokenFromWeb E config w0 = (r, w1\<lparr>files := (files w)(''token.json'' := None)\<rparr>)"
    using g assms(4) by (simp add: getTokenFromWeb_indep_files)
  obtain more where tr1: "trace w1 = trace w @ GoListenAndServe #
      Printed (''Abra o seguinte link no seu navegador:'' @ nl @ AuthCodeURL config ''state-token'' @ nl) # more"
    using getTokenFromWeb_starts [of E config w] g by auto
  have c0: "getClient E config w =
         (case getTokenFromWeb E config w of
            (Fatal x, w1) \<Rightarrow> (Fatal x, w1)
          | (Returned tok, w1) \<Rightarrow>
              (case saveToken E ''token.json'' tok w1 of
                 (Fatal x, w2) \<Rightarrow> (Fatal x, w2)
               | (Returned u, w2) \<Rightarrow> (Returned (Client (Some tok)), w2)))"
    by (rule getClient_miss [OF m1])
  have ev: "take 2 (new_events w (snd (getClient E config w))) =
         [GoListenAndServe,
          Printed (''Abra o seguinte link no seu navegador:'' @ nl @ AuthCodeURL config ''state-token'' @ nl)]"
  proof (cases r)
    case (Fatal x)
    then show ?thesis unfolding c0 g by (simp add: new_events_def tr1)
  next
    case (Returned tok)
    obtain r2 w2 where s: "saveToken E ''token.json'' tok w1 = (r2, w2)"
      by (cases "saveToken E ''token.json'' tok w1")
    have "trace w2 = trace w1 @ Printed (''Salvando token em: '' @ ''token.json'' @ nl) #
      (if openfile_denied E ''token.json'' then [LogFatal (SaveTokenFailed ErrPermission)] else [])"
      using saveToken_trace [of E "''token.json''" tok w1] s by simp
    then show ?thesis unfolding c0 g Returned using s
      by (cases r2) (simp_all add: new_events_def tr1)
  qed
  have sv: "\<forall>tok js. fst (getTokenFromWeb E config w) = Returned tok
            \<and> \<not> openfile_denied E ''token.json'' \<and> json_Marshal E tok = Some js \<and> write_cut E = None
          \<longrightarrow> fst (getClient E config w) = Returned (Client (Some tok))
            \<and> bytes_at (files (snd (getClient E config w))) ''token.json'' = Some (js @ nl)
            \<and> bytes_at (files (snd (getClient E config w0))) ''token.json'' = Some (js @ nl)"
  proof (intro allI impI)
    fix tok js
    assume h: "fst (getTokenFromWeb E config w) = Returned tok
            \<and> \<not> openfile_denied E ''token.json'' \<and> json_Marshal E tok = Some js \<and> write_cut E = None"
    have r: "r = Returned tok" using h g by simp
    have o: "fst (saveToken E ''token.json'' tok w') = Returned ()" for w'
      using h by (simp add: saveToken_outcome)
    have b: "bytes_at (files (snd (saveToken E ''token.json'' tok w'))) ''token.json'' = Some (js @ nl)" for w'
      using h by (simp add: saveToken_bytes)
    have k: "(case saveToken E ''token.json'' tok w' of
                 (Fatal x, w2) \<Rightarrow> (Fatal x, w2)
               | (Returned u, w2) \<Rightarrow> (Returned (Client (Some tok)), w2))
             = (Returned (Client (Some tok)), snd (saveToken E ''token.json'' tok w'))" for w'
      using o [of w'] by (cases "saveToken E ''token.json'' tok w'") auto
    show "fst (getClient E config w) = Returned (Client (Some tok))
            \<and> bytes_at (files (snd (getClient E config w))) ''token.json'' = Some (js @ nl)
            \<and> bytes_at (files (snd (getClient E config w0))) ''token.json'' = Some (js @ nl)"
      unfolding getClient_miss [OF m1] getClient_miss [OF m2] g g0 r
      by (simp add: k b)
  qed
  have c1: "fst (getClient E config w) = fst (getClient E config w0)"
    unfolding getClient_miss [OF m1] getClient_miss [OF m2] g g0
    by (cases r) (simp_all add: saveToken_def Let_def os_OpenFile_def log_Fatalf_def)
  have c2: "trace (snd (getClient E config w)) = trace (snd (getClient E config w0))"
    unfolding getClient_miss [OF m1] getClient_miss [OF m2] g g0
    by (cases r) (simp_all add: saveToken_def Let_def os_OpenFile_def log_Fatalf_def emit_def)
  show ?thesis by (intro conjI l1 l2 c0 ev sv c1 c2)
qed

theorem malformed_file_like_absent_witness:
  "tokenFromFile sample_env (files (world_with ''{ya29'' 384)) ''token.json'' = (Some zeroToken, Some ErrDecode)
   \<and> tokenFromFile sample_env (files empty_world) ''token.json'' = (None, Some ErrNotExist)
   \<and> fst (getClient sample_env sample_config (world_with ''{ya29'' 384)) = Returned (Client (Some sample_token))
   \<and> fst (getClient sample_env sample_config empty_world) = Returned (Client (Some sample_token))
   \<and> bytes_at (files (snd (getClient sample_env sample_config (world_with ''{ya29'' 384)))) ''token.json''
       = Some (''{ya29.abc123}'' @ nl)
   \<and> take 2 (trace (snd (getClient sample_env sample_config (world_with ''{ya29'' 384)))) =
         [GoListenAndServe,
          Printed (''Abra o seguinte link no seu navegador:'' @ nl
                     @ ''https://auth.example/o/oauth2/auth?state=state-token'' @ nl)]"
proof -
  define w where "w = world_with ''{ya29'' 384"
  have h1: "files w ''token.json'' = Some \<lparr>content = ''{ya29'', perm = 384\<rparr>"
    by (simp add: w_def world_with_def)
  have h2: "\<not> open_denied sample_env ''token.json''"
    by (simp add: sample_env_def)
  have h3: "snd (json_Decode sample_env (content \<lparr>content = ''{ya29'', perm = 384\<rparr>) zeroToken) = Some ErrDecode"
    by (simp add: sample_env_def sample_Decode_def)
  have h4: "empty_world = w\<lparr>files := (files w)(''token.json'' := None)\<rparr>"
    by (simp add: w_def world_with_def empty_world_def)
  have d: "fst (json_Decode sample_env (content \<lparr>content = ''{ya29'', perm = 384\<rparr>) zeroToken) = zeroToken"
    by (simp add: sample_env_def sample_Decode_def)
  have g: "fst (getTokenFromWeb sample_env sample_config w) = Returned sample_token"
    by (simp add: getTokenFromWeb_def Let_def sample_env_def sample_config_def handler_def
        FormValue_def Form_def get_with_code_def get_without_code_def sample_token_def
        zeroToken_def before_timeout_def timeout_seconds_def)
  have e: "\<not> openfile_denied sample_env ''token.json'' \<and> json_Marshal sample_env sample_token = Some ''{ya29.abc123}''
           \<and> write_cut sample_env = None"
    by (simp add: sample_env_def sample_Marshal_def sample_token_def zeroToken_def)
  have t: "trace w = []" by (simp add: w_def world_with_def)
  note T = malformed_file_like_absent [OF h1 h2 h3 h4, of sample_config]
  have a1: "tokenFromFile sample_env (files w) ''token.json'' = (Some zeroToken, Some ErrDecode)"
    using T d by simp
  have a2: "tokenFromFile sample_env (files empty_world) ''token.json'' = (None, Some ErrNotExist)"
    using T by blast
  have a3: "fst (getClient sample_env sample_config w) = Returned (Client (Some sample_token))
            \<and> bytes_at (files (snd (getClient sample_env sample_config w))) ''token.json''
                = Some (''{ya29.abc123}'' @ nl)"
    using T g e by blast
  have a4: "fst (getClient sample_env sample_config empty_world) = Returned (Client (Some sample_token))"
    using T a3 by simp
  have a5: "take 2 (new_events w (snd (getClient sample_env sample_config w))) =
         [GoListenAndServe,
          Printed (''Abra o seguinte link no seu navegador:'' @ nl @ AuthCodeURL sample_config ''state-token'' @ nl)]"
    using T by blast
  have a6: "take 2 (trace (snd (getClient sample_env sample_config w))) =
         [GoListenAndServe,
          Printed (''Abra o seguinte link no seu navegador:'' @ nl
                     @ ''https://auth.example/o/oauth2/auth?state=state-token'' @ nl)]"
    using a5 t by (simp add: new_events_def sample_config_def)
  show ?thesis
    using a1 a2 a3 a4 a6 unfolding w_def by simp
qed

text \<open>
  C9. tokenFromFile checks nothing beyond the decoding. Whatever token the decoder returns
  without an error, with an empty access token or an expiry in the past as well, is the
  token of the client that getClient returns, and the interactive flow does not run (the
  world is unchanged).
\<close>

theorem load_without_validation:
  assumes "files w ''token.json'' = Some f" and "\<not> open_denied E ''token.json''"
    and "json_Decode E (content f) zeroToken = (t, None)"
  shows "tokenFromFile E (files w) ''token.json'' = (Some t, None)
       \<and> getClient E config w = (Returned (Client (Some t)), w)"
  using assms by (simp add: tokenFromFile_hit getClient_hit)

theorem load_without_validation_witness:
  "json_Decode sample_env ''{}'' zeroToken = (zeroToken, None)
   \<and> AccessToken zeroToken = [] \<and> Expiry zeroToken = 0
   \<and> tokenFromFile sample_env (files (world_with ''{}'' 384)) ''token.json'' = (Some zeroToken, None)
   \<and> getClient sample_env sample_config (world_with ''{}'' 384) = (Returned (Client (Some zeroToken)), world_with ''{}'' 384)"
  using load_without_validation [of "world_with ''{}'' 384" "\<lparr>content = ''{}'', perm = 384\<rparr>" sample_env zeroToken sample_config]
  by (simp add: world_with_def sample_env_def sample_Decode_def zeroToken_def)

subsection \<open>Saving the token\<close>

lemma truncate_file: "(f::file_data)\<lparr>content := []\<rparr> = \<lparr>content = [], perm = perm f\<rparr>"
  by (cases f) simp

lemma os_OpenFile_ok:
  "\<not> openfile_denied E p \<Longrightarrow>
   os_OpenFile E fs p = Inr (fs(p \<mapsto> \<lparr>content = [], perm = (case fs p of None \<Rightarrow> created_mode E | Some f \<Rightarrow> perm f)\<rparr>))"
  by (simp add: os_OpenFile_def truncate_file split: option.splits)

lemma Encode_after_open:
  "fs1 p = Some \<lparr>content = [], perm = m\<rparr> \<Longrightarrow> json_Marshal E c = Some js \<Longrightarrow>
   snd (Encode E fs1 p c) =
     fs1(p \<mapsto> \<lparr>content = (case write_cut E of None \<Rightarrow> js @ nl | Some n \<Rightarrow> take n (js @ nl)), perm = m\<rparr>)"
  by (simp add: Encode_def file_Write_def split: option.splits)

lemma saveToken_steps_ok:
  assumes "\<not> openfile_denied E p" and "json_Marshal E c = Some js"
    and "m = (case fs p of None \<Rightarrow> created_mode E | Some f \<Rightarrow> perm f)"
  shows "saveToken_steps E p c fs =
     [fs, fs(p \<mapsto> \<lparr>content = [], perm = m\<rparr>),
      fs(p \<mapsto> \<lparr>content = (case write_cut E of None \<Rightarrow> js @ nl | Some n \<Rightarrow> take n (js @ nl)), perm = m\<rparr>)]"
  using assms by (simp add: saveToken_steps_def os_OpenFile_ok Encode_after_open)

lemma saveToken_steps_last:
  "last (saveToken_steps E p c (files w)) = files (snd (saveToken E p c w))"
  by (simp add: saveToken_steps_def saveToken_def Let_def emit_def log_Fatalf_def split: sum.splits)

lemma and_63: "(x::nat) AND 63 = x mod 64"
proof -
  have "mask 6 = (63::nat)" by (simp add: mask_eq_exp_minus_1)
  then show ?thesis using take_bit_eq_mask [of 6 x] by (simp add: take_bit_eq_mod)
qed

lemma and_384_low_bits: "((384::nat) AND u) mod 64 = 0"
proof -
  have "take_bit 6 ((384::nat) AND u) = take_bit 6 384 AND take_bit 6 u"
    by (simp add: take_bit_and)
  also have "take_bit 6 (384::nat) = 0" by (simp add: take_bit_eq_mod)
  finally show ?thesis by (simp add: take_bit_eq_mod)
qed

lemma created_mode_owner_only: "created_mode E AND 63 = 0"
proof -
  have "64 dvd ((384::nat) AND umask E)" using and_384_low_bits [of "umask E"] by presburger
  moreover have "(64::nat) dvd 384" by simp
  ultimately have "64 dvd (384 - ((384::nat) AND umask E))" by (rule dvd_diff_nat [rotated])
  then show ?thesis by (simp add: and_63 created_mode_def)
qed

lemma decode_prefix_safe:
  assumes "prefix bs (js @ nl)"
    and "(\<forall>bs. strict_prefix bs js \<longrightarrow> snd (D bs) \<noteq> None) \<and> D js = (c, None) \<and> D (js @ nl) = (c, None)"
  shows "snd (D bs) \<noteq> None \<or> fst (D bs) = c"
proof -
  have "bs = js @ nl \<or> bs = js \<or> strict_prefix bs js"
    using assms(1) prefix_snoc [of bs js "CHR 0x0A"] by (auto simp: nl_def strict_prefix_def)
  then show ?thesis using assms(2) by auto
qed

lemma unescape_escape: "unescape (escape s @ dq # rest) = Some (s, rest)"
  by (induction s) (auto simp: dq_def bsl_def)

lemma unquote_quote: "unquote (quote s @ rest) = Some (s, rest)"
  by (simp add: unquote_def quote_def unescape_escape)

lemma strip_append: "strip pre (pre @ rest) = Some rest"
  by (simp add: strip_def)


lemma of_char_digit_of: "n < 10 \<Longrightarrow> (of_char (digit_of n) :: nat) = 48 + n"
  unfolding digit_of_def by (simp add: of_char_of)


lemma is_digit_digit_of: "n < 10 \<Longrightarrow> is_digit (digit_of n)"
  by (simp add: is_digit_def of_char_digit_of)

lemma value_digit_of: "n < 10 \<Longrightarrow> (of_char (digit_of n) :: nat) - 48 = n"
  by (simp add: of_char_digit_of)

lemma show_nat_digits: "list_all is_digit (show_nat n)"
  by (induction n rule: show_nat.induct) (subst show_nat.simps, simp add: is_digit_digit_of)

lemma show_nat_nonempty: "show_nat n \<noteq> []"
  by (subst show_nat.simps) simp

lemma show_nat_value: "foldl (\<lambda>a c. 10 * a + (of_char c - 48)) 0 (show_nat n) = n"
  by (induction n rule: show_nat.induct) (subst show_nat.simps, simp add: value_digit_of)

lemma takeWhile_all: "list_all P xs \<Longrightarrow> rest = [] \<or> \<not> P (hd rest) \<Longrightarrow> takeWhile P (xs @ rest) = xs"
  by (induction xs) (auto simp: takeWhile_eq_Nil_iff)

lemma dropWhile_all: "list_all P xs \<Longrightarrow> rest = [] \<or> \<not> P (hd rest) \<Longrightarrow> dropWhile P (xs @ rest) = rest"
  by (induction xs) (auto simp: dropWhile_eq_self_iff)

lemma read_nat_show_nat:
  "rest = [] \<or> \<not> is_digit (hd rest) \<Longrightarrow> read_nat (show_nat n @ rest) = Some (n, rest)"
  by (simp add: read_nat_def takeWhile_all dropWhile_all show_nat_digits show_nat_nonempty show_nat_value)

lemma hd_show_nat: "is_digit (hd (show_nat n))"
  using show_nat_digits [of n] show_nat_nonempty [of n] by (cases "show_nat n") simp_all

lemma read_int_show_int:
  "rest = [] \<or> \<not> is_digit (hd rest) \<Longrightarrow> read_int (show_int i @ rest) = Some (i, rest)"
proof (cases "i < 0")
  case True
  assume "rest = [] \<or> \<not> is_digit (hd rest)"
  then show ?thesis using True
    by (simp add: read_int_def show_int_def read_nat_show_nat)
next
  case False
  assume r: "rest = [] \<or> \<not> is_digit (hd rest)"
  obtain c cs where s: "show_nat (nat i) = c # cs"
    using show_nat_nonempty [of "nat i"] by (cases "show_nat (nat i)") auto
  have "is_digit c" using hd_show_nat [of "nat i"] s by simp
  then have "c \<noteq> CHR ''-''" by (auto simp: is_digit_def)
  then show ?thesis using False r read_nat_show_nat [OF r, of "nat i"] s
    by (simp add: read_int_def show_int_def)
qed


lemma quote_keys:
  "quote ''access_token'' = dq # ''access_token'' @ [dq]"
  "quote ''token_type'' = dq # ''token_type'' @ [dq]"
  "quote ''refresh_token'' = dq # ''refresh_token'' @ [dq]"
  "quote ''expiry'' = dq # ''expiry'' @ [dq]"
  by (simp_all add: quote_def dq_def bsl_def)

lemma member_present:
  "member f k val ((if f then [] else '','') @ quote k @ '':'' @ s1) =
     (case val s1 of None \<Rightarrow> None | Some (v, s2) \<Rightarrow> Some ((Some v, False), s2))"
  using strip_append [of "(if f then [] else '','') @ quote k @ '':''" s1]
  by (simp add: member_def)

lemma member_absent:
  "\<not> prefix ((if f then [] else '','') @ quote k @ '':'') s \<Longrightarrow> member f k val s = Some ((None, f), s)"
  by (simp add: member_def strip_def)

lemma not_digit_brace: "\<not> is_digit (CHR ''}'')"
  by (simp add: is_digit_def)

lemma credential_roundtrip:
  "credential_parse (credential_text c @ nl) zeroToken = Some c"
proof -
  obtain a tt rt e where c: "c = \<lparr>AccessToken = a, TokenType = tt, RefreshToken = rt, Expiry = e\<rparr>"
    by (cases c) auto
  define tail where "tail = '','' @ quote ''expiry'' @ '':'' @ show_int e @ ''}'' @ nl"
  define mid2 where "mid2 = (if rt = [] then [] else '','' @ quote ''refresh_token'' @ '':'' @ quote rt) @ tail"
  define mid1 where "mid1 = (if tt = [] then [] else '','' @ quote ''token_type'' @ '':'' @ quote tt) @ mid2"
  have t: "credential_text c @ nl = ''{'' @ quote ''access_token'' @ '':'' @ quote a @ mid1"
    by (simp add: credential_text_def c mid1_def mid2_def tail_def)
  have s0: "strip ''{'' (credential_text c @ nl) = Some (quote ''access_token'' @ '':'' @ quote a @ mid1)"
    unfolding t by (rule strip_append)
  have m1: "member True ''access_token'' unquote (quote ''access_token'' @ '':'' @ quote a @ mid1)
              = Some ((Some a, False), mid1)"
    using member_present [of True "''access_token''" unquote "quote a @ mid1"]
    by (simp add: unquote_quote)
  have m2: "member False ''token_type'' unquote mid1 = Some ((if tt = [] then None else Some tt, False), mid2)"
  proof (cases "tt = []")
    case False
    then show ?thesis
      using member_present [of False "''token_type''" unquote "quote tt @ mid2"]
      by (simp add: mid1_def unquote_quote)
  next
    case True
    have "\<not> prefix ((if False then [] else '','') @ quote ''token_type'' @ '':'') mid1"
      by (simp add: True mid1_def mid2_def tail_def quote_keys)
    then show ?thesis using True by (simp add: member_absent mid1_def)
  qed
  have m3: "member False ''refresh_token'' unquote mid2 = Some ((if rt = [] then None else Some rt, False), tail)"
  proof (cases "rt = []")
    case False
    then show ?thesis
      using member_present [of False "''refresh_token''" unquote "quote rt @ tail"]
      by (simp add: mid2_def unquote_quote)
  next
    case True
    have "\<not> prefix ((if False then [] else '','') @ quote ''refresh_token'' @ '':'') mid2"
      by (simp add: True mid2_def tail_def quote_keys)
    then show ?thesis using True by (simp add: member_absent mid2_def)
  qed
  have m4: "member False ''expiry'' read_int tail = Some ((Some e, False), ''}'' @ nl)"
    using member_present [of False "''expiry''" read_int "show_int e @ ''}'' @ nl"]
      read_int_show_int [of "''}'' @ nl" e]
    by (simp add: tail_def not_digit_brace)
  have s5: "strip ''}'' (''}'' @ nl) = Some nl" by (rule strip_append)
  have sp: "list_all is_space nl" by (simp add: nl_def is_space_def)
  show ?thesis
    unfolding credential_parse_def s0 option.case m1 prod.case m2 m3 m4 s5
    using sp by (simp add: or_keep_def zeroToken_def c)
qed

text \<open>
  C10. saveToken fails only when the file cannot be opened. Once the file is open the
  outcome is a normal return whatever \<open>Encode\<close> does, and nothing is logged: when
  marshalling fails the file stays empty, when the write is cut the file holds the bytes
  written before the error.
\<close>

theorem saveToken_drops_encode_error:
  "fst (saveToken E p t w) =
     (if openfile_denied E p then Fatal (SaveTokenFailed ErrPermission) else Returned ())
   \<and> (\<not> openfile_denied E p \<longrightarrow>
         new_events w (snd (saveToken E p t w)) = [Printed (''Salvando token em: '' @ p @ nl)]
       \<and> (json_Marshal E t = None \<longrightarrow>
             fst (Encode E fs p t) = Some ErrEncode
           \<and> bytes_at (files (snd (saveToken E p t w))) p = Some [])
       \<and> (\<forall>js n. json_Marshal E t = Some js \<and> write_cut E = Some n \<longrightarrow>
             fst (Encode E fs p t) = Some ErrWrite
           \<and> bytes_at (files (snd (saveToken E p t w))) p = Some (take n (js @ nl))))"
  by (simp add: saveToken_outcome saveToken_trace saveToken_bytes new_events_def Encode_def)

theorem saveToken_drops_encode_error_witness:
  "fst (saveToken (sample_env\<lparr>write_cut := Some 5\<rparr>) ''token.json'' sample_token empty_world)
     = Returned ()
   \<and> bytes_at (files (snd (saveToken (sample_env\<lparr>write_cut := Some 5\<rparr>) ''token.json''
         sample_token empty_world))) ''token.json'' = Some ''{ya29''
   \<and> sample_Marshal (sample_token\<lparr>AccessToken := ''}''\<rparr>) = None
   \<and> fst (saveToken sample_env ''token.json'' (sample_token\<lparr>AccessToken := ''}''\<rparr>)
         (world_with ''{old}'' 384)) = Returned ()
   \<and> bytes_at (files (snd (saveToken sample_env ''token.json''
         (sample_token\<lparr>AccessToken := ''}''\<rparr>) (world_with ''{old}'' 384)))) ''token.json'' = Some []"
  using saveToken_drops_encode_error
          [of "sample_env\<lparr>write_cut := Some 5\<rparr>" "''token.json''" sample_token empty_world Map.empty]
        saveToken_drops_encode_error
          [of sample_env "''token.json''" "sample_token\<lparr>AccessToken := ''}''\<rparr>"
              "world_with ''{old}'' 384" Map.empty]
  by (simp add: sample_env_def sample_Marshal_def sample_token_def zeroToken_def)

text \<open>
  C8. Saving a token and loading it again gives the token back, for every token: with
  the serialized form above as the codec, the file opened and the write complete,
  saveToken leaves exactly the text of the token and a newline in the file, and
  tokenFromFile on the same path reads the token back without an error.
\<close>

theorem save_then_load:
  assumes "json_Marshal E = (\<lambda>t. Some (credential_text t))"
    and "json_Decode E = credential_Decode"
    and "write_cut E = None"
    and "\<not> openfile_denied E p" and "\<not> open_denied E p"
  shows "fst (saveToken E p c w) = Returned ()
       \<and> bytes_at (files (snd (saveToken E p c w))) p = Some (credential_text c @ nl)
       \<and> tokenFromFile E (files (snd (saveToken E p c w))) p = (Some c, None)"
proof -
  have b: "bytes_at (files (snd (saveToken E p c w))) p = Some (credential_text c @ nl)"
    using assms by (simp add: saveToken_bytes)
  then obtain f where f: "files (snd (saveToken E p c w)) p = Some f" "content f = credential_text c @ nl"
    by (auto simp: bytes_at_def)
  have d: "json_Decode E (content f) zeroToken = (c, None)"
    using assms(2) f(2) by (simp add: credential_Decode_def credential_roundtrip)
  have "tokenFromFile E (files (snd (saveToken E p c w))) p = (Some c, None)"
    using f(1) assms(5) d by (rule tokenFromFile_hit)
  then show ?thesis using assms b by (simp add: saveToken_outcome)
qed

theorem save_then_load_witness:
  "tokenFromFile credential_env
     (files (snd (saveToken credential_env ''token.json'' sample_token (world_with ''{old}'' 420))))
     ''token.json'' = (Some sample_token, None)
   \<and> TokenType sample_token = ''Bearer''"
  using save_then_load [of credential_env "''token.json''" sample_token "world_with ''{old}'' 420"]
  by (simp add: credential_env_def sample_env_def sample_token_def zeroToken_def)

text \<open>
  C3, as the code has it. saveToken overwrites the file in place: it opens it with
  create and truncate and then writes the text. A file that it creates gets the mode
  0600 less the bits of the umask, which is never more than read and write for the
  owner; a file that exists keeps its mode. After the open the file is empty; every state
  after the open holds a prefix of the new text, the last state is the one saveToken
  leaves, and no other file changes. So, for a decoder that rejects every proper prefix
  of the text, as a JSON decoder rejects an object that is cut off, no state after the
  open loads as another token: tokenFromFile fails on it or returns the token saved.
\<close>

theorem saveToken_in_place:
  assumes "\<not> openfile_denied E p" and "json_Marshal E c = Some js"
  shows "length (saveToken_steps E p c (files w)) = 3
       \<and> last (saveToken_steps E p c (files w)) = files (snd (saveToken E p c w))
       \<and> bytes_at (saveToken_steps E p c (files w) ! 1) p = Some []
       \<and> (write_cut E = None \<longrightarrow> bytes_at (saveToken_steps E p c (files w) ! 2) p = Some (js @ nl))
       \<and> (\<forall>fs' \<in> set (tl (saveToken_steps E p c (files w))).
             (\<exists>bs. bytes_at fs' p = Some bs \<and> prefix bs (js @ nl))
           \<and> map_option perm (fs' p) = Some (case files w p of None \<Rightarrow> created_mode E | Some f \<Rightarrow> perm f)
           \<and> (\<forall>q. q \<noteq> p \<longrightarrow> fs' q = files w q))
       \<and> created_mode E = 384 - (384 AND umask E) \<and> created_mode E AND 63 = 0
       \<and> ((\<forall>bs. strict_prefix bs js \<longrightarrow> snd (json_Decode E bs zeroToken) \<noteq> None)
            \<and> json_Decode E js zeroToken = (c, None) \<and> json_Decode E (js @ nl) zeroToken = (c, None)
          \<longrightarrow> (\<forall>fs' \<in> set (tl (saveToken_steps E p c (files w))).
                 snd (tokenFromFile E fs' p) \<noteq> None \<or> fst (tokenFromFile E fs' p) = Some c))"
proof -
  define m where "m = (case files w p of None \<Rightarrow> created_mode E | Some f \<Rightarrow> perm f)"
  have st: "saveToken_steps E p c (files w) =
     [files w, (files w)(p \<mapsto> \<lparr>content = [], perm = m\<rparr>),
      (files w)(p \<mapsto> \<lparr>content = (case write_cut E of None \<Rightarrow> js @ nl | Some n \<Rightarrow> take n (js @ nl)), perm = m\<rparr>)]"
    using assms m_def by (rule saveToken_steps_ok)
  have a: "length (saveToken_steps E p c (files w)) = 3" by (simp add: st)
  have b: "bytes_at (saveToken_steps E p c (files w) ! 1) p = Some []"
    by (simp add: st bytes_at_def)
  have c: "write_cut E = None \<longrightarrow> bytes_at (saveToken_steps E p c (files w) ! 2) p = Some (js @ nl)"
    by (simp add: st bytes_at_def)
  have d: "\<forall>fs' \<in> set (tl (saveToken_steps E p c (files w))).
             (\<exists>bs. bytes_at fs' p = Some bs \<and> prefix bs (js @ nl))
           \<and> map_option perm (fs' p) = Some m
           \<and> (\<forall>q. q \<noteq> p \<longrightarrow> fs' q = files w q)"
    using take_is_prefix [of _ "js @ nl"]
    by (simp add: st bytes_at_def del: take_append split: option.splits)
  have e: "(\<forall>bs. strict_prefix bs js \<longrightarrow> snd (json_Decode E bs zeroToken) \<noteq> None)
            \<and> json_Decode E js zeroToken = (c, None) \<and> json_Decode E (js @ nl) zeroToken = (c, None)
          \<longrightarrow> (\<forall>fs' \<in> set (tl (saveToken_steps E p c (files w))).
                 snd (tokenFromFile E fs' p) \<noteq> None \<or> fst (tokenFromFile E fs' p) = Some c)"
  proof (intro impI ballI)
    fix fs'
    assume h: "(\<forall>bs. strict_prefix bs js \<longrightarrow> snd (json_Decode E bs zeroToken) \<noteq> None)
            \<and> json_Decode E js zeroToken = (c, None) \<and> json_Decode E (js @ nl) zeroToken = (c, None)"
      and i: "fs' \<in> set (tl (saveToken_steps E p c (files w)))"
    obtain bs where bs: "bytes_at fs' p = Some bs" "prefix bs (js @ nl)"
      using d i by blast
    have dec: "snd (json_Decode E bs zeroToken) \<noteq> None \<or> fst (json_Decode E bs zeroToken) = c"
      using bs(2) h by (rule decode_prefix_safe)
    obtain f where f: "fs' p = Some f" "content f = bs"
      using bs(1) by (auto simp: bytes_at_def)
    show "snd (tokenFromFile E fs' p) \<noteq> None \<or> fst (tokenFromFile E fs' p) = Some c"
      using dec f by (cases "json_Decode E bs zeroToken") (auto simp: tokenFromFile_def os_Open_def)
  qed
  show ?thesis
    using a b c d e saveToken_steps_last [of E p c w] created_mode_owner_only [of E]
    by (simp add: m_def created_mode_def)
qed

theorem saveToken_in_place_witness:
  "saveToken_steps sample_env ''token.json'' (zeroToken\<lparr>AccessToken := ''ya29.abc123''\<rparr>) (files empty_world) =
     [Map.empty, [''token.json'' \<mapsto> \<lparr>content = [], perm = 384\<rparr>],
      [''token.json'' \<mapsto> \<lparr>content = ''{ya29.abc123}'' @ nl, perm = 384\<rparr>]]
   \<and> files (snd (saveToken sample_env ''token.json'' (zeroToken\<lparr>AccessToken := ''ya29.abc123''\<rparr>) empty_world))
       = [''token.json'' \<mapsto> \<lparr>content = ''{ya29.abc123}'' @ nl, perm = 384\<rparr>]
   \<and> tokenFromFile sample_env [''token.json'' \<mapsto> \<lparr>content = [], perm = 384\<rparr>] ''token.json''
       = (Some zeroToken, Some ErrDecode)
   \<and> tokenFromFile sample_env [''token.json'' \<mapsto> \<lparr>content = ''{ya29.abc123}'' @ nl, perm = 384\<rparr>] ''token.json''
       = (Some (zeroToken\<lparr>AccessToken := ''ya29.abc123''\<rparr>), None)"
proof -
  define c where "c = zeroToken\<lparr>AccessToken := ''ya29.abc123''\<rparr>"
  have h1: "\<not> openfile_denied sample_env ''token.json''"
    by (simp add: sample_env_def)
  have h2: "json_Marshal sample_env c = Some ''{ya29.abc123}''"
    by (simp add: sample_env_def sample_Marshal_def c_def zeroToken_def)
  have p: "\<forall>bs. strict_prefix bs ''{ya29.abc123}'' \<longrightarrow> snd (json_Decode sample_env bs zeroToken) \<noteq> None"
  proof (intro allI impI)
    fix bs assume "strict_prefix bs ''{ya29.abc123}''"
    then have "prefix bs ''{ya29.abc123''"
      using prefix_snoc [of bs "''{ya29.abc123''" "CHR ''}''"] by (auto simp: strict_prefix_def)
    then have "set bs \<subseteq> set ''{ya29.abc123''" by (rule set_mono_prefix)
    then have "CHR ''}'' \<notin> set bs" by auto
    then show "snd (json_Decode sample_env bs zeroToken) \<noteq> None"
      by (cases bs) (auto simp: sample_env_def sample_Decode_def)
  qed
  have d: "json_Decode sample_env ''{ya29.abc123}'' zeroToken = (c, None)
           \<and> json_Decode sample_env (''{ya29.abc123}'' @ nl) zeroToken = (c, None)"
    by (simp add: sample_env_def sample_Decode_def c_def nl_def)
  have s: "saveToken_steps sample_env ''token.json'' c (files empty_world) =
     [Map.empty, [''token.json'' \<mapsto> \<lparr>content = [], perm = 384\<rparr>],
      [''token.json'' \<mapsto> \<lparr>content = ''{ya29.abc123}'' @ nl, perm = 384\<rparr>]]"
    using h2 by (simp add: saveToken_steps_def os_OpenFile_def created_mode_def sample_env_def
        empty_world_def Encode_def file_Write_def)
  note T = saveToken_in_place [OF h1 h2, of empty_world]
  have l: "last (saveToken_steps sample_env ''token.json'' c (files empty_world))
             = files (snd (saveToken sample_env ''token.json'' c empty_world))"
    using T by blast
  have safe: "\<forall>fs' \<in> set (tl (saveToken_steps sample_env ''token.json'' c (files empty_world))).
                 snd (tokenFromFile sample_env fs' ''token.json'') \<noteq> None
               \<or> fst (tokenFromFile sample_env fs' ''token.json'') = Some c"
    using T p d by blast
  have f: "files (snd (saveToken sample_env ''token.json'' c empty_world))
             = [''token.json'' \<mapsto> \<lparr>content = ''{ya29.abc123}'' @ nl, perm = 384\<rparr>]"
    using l s by simp
  have t1: "tokenFromFile sample_env [''token.json'' \<mapsto> \<lparr>content = [], perm = 384\<rparr>] ''token.json''
       = (Some zeroToken, Some ErrDecode)"
    by (simp add: tokenFromFile_def os_Open_def sample_env_def sample_Decode_def)
  have t2: "tokenFromFile sample_env [''token.json'' \<mapsto> \<lparr>content = ''{ya29.abc123}'' @ nl, perm = 384\<rparr>] ''token.json''
       = (Some c, None)"
    using d by (simp add: tokenFromFile_def os_Open_def sample_env_def)
  show ?thesis
    using s f t1 t2 unfolding c_def by simp
qed

text \<open>
  C3 as stated fails: the replacement is not atomic and the mode is not always 0600. On a
  file \<open>{old}\<close> of mode 0644 (\<open>420\<close>), the state after the open holds neither the old
  text nor the new one but the empty text, and the file keeps mode 0644 to the end.
\<close>

theorem saveToken_not_atomic:
  "bytes_at (files (world_with ''{old}'' 420)) ''token.json'' = Some ''{old}''
   \<and> json_Marshal sample_env sample_token = Some ''{ya29.abc123}''
   \<and> bytes_at (saveToken_steps sample_env ''token.json'' sample_token
         (files (world_with ''{old}'' 420)) ! 1) ''token.json'' = Some []
   \<and> bytes_at (saveToken_steps sample_env ''token.json'' sample_token
         (files (world_with ''{old}'' 420)) ! 1) ''token.json'' \<noteq> Some ''{old}''
   \<and> bytes_at (saveToken_steps sample_env ''token.json'' sample_token
         (files (world_with ''{old}'' 420)) ! 1) ''token.json'' \<noteq> Some (''{ya29.abc123}'' @ nl)
   \<and> map_option perm ((saveToken_steps sample_env ''token.json'' sample_token
         (files (world_with ''{old}'' 420)) ! 2) ''token.json'') = Some 420
   \<and> map_option perm ((saveToken_steps sample_env ''token.json'' sample_token
         (files (world_with ''{old}'' 420)) ! 2) ''token.json'') \<noteq> Some 384"
  by (simp add: saveToken_steps_def os_OpenFile_def sample_env_def world_with_def bytes_at_def
      Encode_def sample_Marshal_def sample_token_def zeroToken_def file_Write_def)

text \<open>
  C2, as the code has it. After the interactive flow has returned a token, getClient
  returns the client of that token whenever the token file can be opened, whatever
  \<open>Encode\<close> then does (its error is dropped and nothing is logged). When the file cannot be
  opened, saveToken logs the error with \<^verbatim>\<open>log.Fatalf\<close>: the process ends and no client
  is returned.
\<close>

theorem getClient_save_failure:
  assumes "snd (tokenFromFile E (files w) ''token.json'') \<noteq> None"
    and "fst (getTokenFromWeb E config w) = Returned tok"
  shows "(\<not> openfile_denied E ''token.json'' \<longrightarrow>
            fst (getClient E config w) = Returned (Client (Some tok))
          \<and> trace (snd (getClient E config w)) =
              trace (snd (getTokenFromWeb E config w)) @ [Printed (''Salvando token em: token.json'' @ nl)])
       \<and> (openfile_denied E ''token.json'' \<longrightarrow>
            fst (getClient E config w) = Fatal (SaveTokenFailed ErrPermission)
          \<and> trace (snd (getClient E config w)) =
              trace (snd (getTokenFromWeb E config w)) @
                [Printed (''Salvando token em: token.json'' @ nl), LogFatal (SaveTokenFailed ErrPermission)])"
proof -
  obtain w1 where g: "getTokenFromWeb E config w = (Returned tok, w1)"
    using assms(2) by (cases "getTokenFromWeb E config w") simp
  obtain r w2 where s: "saveToken E ''token.json'' tok w1 = (r, w2)"
    by (cases "saveToken E ''token.json'' tok w1")
  have r: "r = (if openfile_denied E ''token.json'' then Fatal (SaveTokenFailed ErrPermission) else Returned ())"
    using saveToken_outcome [of E "''token.json''" tok w1] s by simp
  have t: "trace w2 = trace w1 @ Printed (''Salvando token em: '' @ ''token.json'' @ nl) #
      (if openfile_denied E ''token.json'' then [LogFatal (SaveTokenFailed ErrPermission)] else [])"
    using saveToken_trace [of E "''token.json''" tok w1] s by simp
  show ?thesis
    unfolding getClient_miss [OF assms(1)] g using s r t by simp
qed

theorem getClient_save_failure_witness:
  "fst (Encode (sample_env\<lparr>write_cut := Some 3\<rparr>) [''token.json'' \<mapsto> \<lparr>content = [], perm = 384\<rparr>]
         ''token.json'' sample_token) = Some ErrWrite
   \<and> fst (getClient (sample_env\<lparr>write_cut := Some 3\<rparr>) sample_config empty_world)
       = Returned (Client (Some sample_token))
   \<and> fst (getClient (sample_env\<lparr>openfile_denied := (\<lambda>p. True)\<rparr>) sample_config empty_world)
       = Fatal (SaveTokenFailed ErrPermission)"
proof -
  have m: "snd (tokenFromFile E (files empty_world) ''token.json'') \<noteq> None" for E
    by (simp add: tokenFromFile_absent empty_world_def)
  have g: "requests E = requests sample_env \<Longrightarrow> bind_ok E \<Longrightarrow>
           fst (getTokenFromWeb E sample_config empty_world) = Returned sample_token" for E
    by (simp add: getTokenFromWeb_def Let_def sample_env_def sample_config_def handler_def
        FormValue_def Form_def get_with_code_def get_without_code_def sample_token_def
        zeroToken_def before_timeout_def timeout_seconds_def)
  have e: "fst (Encode (sample_env\<lparr>write_cut := Some 3\<rparr>) [''token.json'' \<mapsto> \<lparr>content = [], perm = 384\<rparr>]
         ''token.json'' sample_token) = Some ErrWrite"
    by (simp add: Encode_def sample_env_def sample_Marshal_def sample_token_def zeroToken_def)
  show ?thesis
    using getClient_save_failure [OF m g, of "sample_env\<lparr>write_cut := Some 3\<rparr>"]
      getClient_save_failure [OF m g, of "sample_env\<lparr>openfile_denied := (\<lambda>p. True)\<rparr>"] e
    by (simp add: sample_env_def)
qed

text \<open>
  C2 as stated fails when the save fails at the open: the flow has returned a token,
  \<^verbatim>\<open>os.OpenFile\<close> fails, and the outcome of getClient is the fatal exit, not the client.
\<close>

theorem getClient_save_open_fatal:
  "snd (tokenFromFile (sample_env\<lparr>openfile_denied := (\<lambda>p. True)\<rparr>) (files empty_world) ''token.json'') \<noteq> None
   \<and> fst (getTokenFromWeb (sample_env\<lparr>openfile_denied := (\<lambda>p. True)\<rparr>) sample_config empty_world)
       = Returned sample_token
   \<and> os_OpenFile (sample_env\<lparr>openfile_denied := (\<lambda>p. True)\<rparr>) (files empty_world) ''token.json''
       = Inl ErrPermission
   \<and> fst (getClient (sample_env\<lparr>openfile_denied := (\<lambda>p. True)\<rparr>) sample_config empty_world)
       = Fatal (SaveTokenFailed ErrPermission)
   \<and> fst (getClient (sample_env\<lparr>openfile_denied := (\<lambda>p. True)\<rparr>) sample_config empty_world)
       \<noteq> Returned (Client (Some sample_token))"
  by (simp add: getClient_def tokenFromFile_def os_Open_def getTokenFromWeb_def Let_def
      sample_config_def handler_def FormValue_def saveToken_def os_OpenFile_def emit_def emits_def
      sample_token_def zeroToken_def empty_world_def sample_env_def log_Fatalf_def
      before_timeout_def timeout_seconds_def Form_def get_with_code_def get_without_code_def)

subsection \<open>The flow\<close>

text \<open>
  C5. A redirect (a GET without a body) whose \<open>code\<close> query parameter is absent or empty
  gets status 400 with a plain-text body and sends nothing on the channel: the wait is
  decided by the requests after it. A redirect whose query carries a code gets status 200
  with the confirmation text and ends the wait with that code. When a redirect without a
  code is followed by one with a code, both served before the timeout, the code received
  is that of the second, and the result of the flow is the exchange of that code.
\<close>

theorem handler_missing_code:
  "(redirect_request r \<and> (map_of (query r) ''code'' = None \<or> map_of (query r) ''code'' = Some []) \<longrightarrow>
         handler r = (\<lparr>status = 400, content_type = Some ''text/plain; charset=utf-8'', body = msg_not_found @ nl\<rparr>, None)
       \<and> serve (r # rs) = (fst (handler r) # fst (serve rs), snd (serve rs)))
   \<and> (redirect_request r \<and> map_of (query r) ''code'' = Some c \<and> c \<noteq> [] \<longrightarrow>
         handler r = (\<lparr>status = 200, content_type = None, body = msg_received @ nl\<rparr>, Some c)
       \<and> serve (r # rs) = ([fst (handler r)], Some c))
   \<and> (redirect_request r1 \<and> (map_of (query r1) ''code'' = None \<or> map_of (query r1) ''code'' = Some [])
         \<and> redirect_request r2 \<and> map_of (query r2) ''code'' = Some c2 \<and> c2 \<noteq> [] \<and> bind_ok E
         \<and> t1 < timeout_seconds \<and> t2 < timeout_seconds \<and> requests E = (t1, r1) # (t2, r2) # rest \<longrightarrow>
         snd (serve (before_timeout (requests E))) = Some c2
       \<and> fst (getTokenFromWeb E config w) =
           (case Exchange config c2 of Inl err \<Rightarrow> Fatal (ExchangeFailed err) | Inr tok \<Rightarrow> Returned tok)
       \<and> CodeReceived c2 \<in> set (trace (snd (getTokenFromWeb E config w)))
       \<and> exchanges (new_events w (snd (getTokenFromWeb E config w))) = [c2])"
proof -
  have b: "redirect_request r \<and> (map_of (query r) ''code'' = None \<or> map_of (query r) ''code'' = Some []) \<longrightarrow>
         handler r = (\<lparr>status = 400, content_type = Some ''text/plain; charset=utf-8'', body = msg_not_found @ nl\<rparr>, None)
       \<and> serve (r # rs) = (fst (handler r) # fst (serve rs), snd (serve rs))"
  proof (intro impI)
    assume "redirect_request r \<and> (map_of (query r) ''code'' = None \<or> map_of (query r) ''code'' = Some [])"
    then have "FormValue r ''code'' = []" by (simp add: FormValue_redirect_missing)
    then show "handler r = (\<lparr>status = 400, content_type = Some ''text/plain; charset=utf-8'', body = msg_not_found @ nl\<rparr>, None)
       \<and> serve (r # rs) = (fst (handler r) # fst (serve rs), snd (serve rs))"
      by (simp add: handler_missing http_Error_def split: prod.splits)
  qed
  have c: "redirect_request r \<and> map_of (query r) ''code'' = Some c \<and> c \<noteq> [] \<longrightarrow>
         handler r = (\<lparr>status = 200, content_type = None, body = msg_received @ nl\<rparr>, Some c)
       \<and> serve (r # rs) = ([fst (handler r)], Some c)"
  proof (intro impI)
    assume h: "redirect_request r \<and> map_of (query r) ''code'' = Some c \<and> c \<noteq> []"
    then have "FormValue r ''code'' = c" by (simp add: FormValue_redirect)
    then show "handler r = (\<lparr>status = 200, content_type = None, body = msg_received @ nl\<rparr>, Some c)
       \<and> serve (r # rs) = ([fst (handler r)], Some c)"
      using h handler_code [of r] by simp
  qed
  have d: "redirect_request r1 \<and> (map_of (query r1) ''code'' = None \<or> map_of (query r1) ''code'' = Some [])
         \<and> redirect_request r2 \<and> map_of (query r2) ''code'' = Some c2 \<and> c2 \<noteq> [] \<and> bind_ok E
         \<and> t1 < timeout_seconds \<and> t2 < timeout_seconds \<and> requests E = (t1, r1) # (t2, r2) # rest \<longrightarrow>
         snd (serve (before_timeout (requests E))) = Some c2
       \<and> fst (getTokenFromWeb E config w) =
           (case Exchange config c2 of Inl err \<Rightarrow> Fatal (ExchangeFailed err) | Inr tok \<Rightarrow> Returned tok)
       \<and> CodeReceived c2 \<in> set (trace (snd (getTokenFromWeb E config w)))
       \<and> exchanges (new_events w (snd (getTokenFromWeb E config w))) = [c2]"
  proof (intro impI)
    assume h: "redirect_request r1 \<and> (map_of (query r1) ''code'' = None \<or> map_of (query r1) ''code'' = Some [])
         \<and> redirect_request r2 \<and> map_of (query r2) ''code'' = Some c2 \<and> c2 \<noteq> [] \<and> bind_ok E
         \<and> t1 < timeout_seconds \<and> t2 < timeout_seconds \<and> requests E = (t1, r1) # (t2, r2) # rest"
    have f1: "FormValue r1 ''code'' = []" using h by (simp add: FormValue_redirect_missing)
    have f2: "FormValue r2 ''code'' = c2" using h by (simp add: FormValue_redirect)
    have s: "serve (before_timeout (requests E)) =
       ([http_Error msg_not_found 400, \<lparr>status = 200, content_type = None, body = msg_received @ nl\<rparr>],
        Some c2)"
      using h f1 f2 serve_first_code [of "[r1]" r2 "before_timeout rest"] by (simp add: before_timeout_def)
    have b: "bind_ok E" using h by simp
    show "snd (serve (before_timeout (requests E))) = Some c2
       \<and> fst (getTokenFromWeb E config w) =
           (case Exchange config c2 of Inl err \<Rightarrow> Fatal (ExchangeFailed err) | Inr tok \<Rightarrow> Returned tok)
       \<and> CodeReceived c2 \<in> set (trace (snd (getTokenFromWeb E config w)))
       \<and> exchanges (new_events w (snd (getTokenFromWeb E config w))) = [c2]"
      unfolding getTokenFromWeb_code [OF b s] using s
      by (simp add: new_events_def exchanges_append split: sum.splits)
  qed
  show ?thesis using b c d by blast
qed

theorem handler_missing_code_witness:
  "redirect_request get_without_code \<and> map_of (query get_without_code) ''code'' = None
   \<and> redirect_request get_with_code \<and> map_of (query get_with_code) ''code'' = Some ''abc123''
   \<and> handler get_without_code
       = (\<lparr>status = 400, content_type = Some ''text/plain; charset=utf-8'', body = msg_not_found @ nl\<rparr>, None)
   \<and> handler get_with_code
       = (\<lparr>status = 200, content_type = None, body = msg_received @ nl\<rparr>, Some ''abc123'')
   \<and> snd (serve (before_timeout (requests sample_env))) = Some ''abc123''
   \<and> fst (getTokenFromWeb sample_env sample_config empty_world) = Returned sample_token"
proof -
  have r1: "redirect_request get_without_code \<and> map_of (query get_without_code) ''code'' = None"
    by (simp add: redirect_request_def get_without_code_def)
  have r2: "redirect_request get_with_code \<and> map_of (query get_with_code) ''code'' = Some ''abc123''"
    by (simp add: redirect_request_def get_with_code_def)
  have e: "bind_ok sample_env \<and> (3::nat) < timeout_seconds \<and> (7::nat) < timeout_seconds
           \<and> requests sample_env = (3, get_without_code) # (7, get_with_code) # []"
    by (simp add: sample_env_def timeout_seconds_def)
  have x: "Exchange sample_config ''abc123'' = Inr sample_token"
    by (simp add: sample_config_def sample_token_def zeroToken_def)
  show ?thesis
    using handler_missing_code [where r = get_without_code and rs = "[]" and c = "''abc123''"
            and ?r1.0 = get_without_code and ?r2.0 = get_with_code and ?c2.0 = "''abc123''"
            and ?t1.0 = 3 and ?t2.0 = 7 and rest = "[]"
            and E = sample_env and config = sample_config and w = empty_world]
          handler_missing_code [where r = get_with_code and rs = "[]" and c = "''abc123''"
            and ?r1.0 = get_without_code and ?r2.0 = get_with_code and ?c2.0 = "''abc123''"
            and ?t1.0 = 3 and ?t2.0 = 7 and rest = "[]"
            and E = sample_env and config = sample_config and w = empty_world]
          r1 r2 e x
    by simp
qed




text \<open>
  C7. In the events of a run of getTokenFromWeb, every call of \<^verbatim>\<open>config.Exchange\<close>
  comes after the receipt of the very code it is called with, and the call of
  \<^verbatim>\<open>srv.Shutdown\<close> comes after the receipt of a code. The exchange is called at most
  once. When the receiver delivers a code, it is called exactly once, with that code, and
  the outcome of the flow is what \<^verbatim>\<open>config.Exchange\<close> gives for that code; a token is
  returned only as the result of exchanging the code received, and without an exchange
  the flow returns no token.
\<close>

theorem exchange_after_code:
  fixes E config w
  defines "tr \<equiv> new_events w (snd (getTokenFromWeb E config w))"
  shows "(\<forall>pre c post. tr = pre @ ExchangeCalled c # post \<longrightarrow> CodeReceived c \<in> set pre)
       \<and> (\<forall>pre post. tr = pre @ ShutdownCalled # post \<longrightarrow> (\<exists>c. CodeReceived c \<in> set pre))
       \<and> length (exchanges tr) \<le> 1
       \<and> (\<forall>c. bind_ok E \<and> snd (serve (before_timeout (requests E))) = Some c \<longrightarrow>
            exchanges tr = [c]
          \<and> fst (getTokenFromWeb E config w) =
              (case Exchange config c of Inl err \<Rightarrow> Fatal (ExchangeFailed err) | Inr tok \<Rightarrow> Returned tok))
       \<and> (\<forall>tok. fst (getTokenFromWeb E config w) = Returned tok \<longrightarrow>
            (\<exists>c. exchanges tr = [c] \<and> CodeReceived c \<in> set tr \<and> Exchange config c = Inr tok))
       \<and> (exchanges tr = [] \<longrightarrow> (\<exists>f. fst (getTokenFromWeb E config w) = Fatal f))"
proof (cases "bind_ok E")
  case False
  have t: "tr = [GoListenAndServe,
            Printed (''Abra o seguinte link no seu navegador:'' @ nl @ AuthCodeURL config ''state-token'' @ nl),
            LogFatal ServerStartFailed]"
    unfolding tr_def getTokenFromWeb_bind_failed [OF False] by (simp add: new_events_def)
  have o: "fst (getTokenFromWeb E config w) = Fatal ServerStartFailed"
    by (simp add: getTokenFromWeb_bind_failed [OF False])
  show ?thesis unfolding t o using False
    by (auto simp: Cons_eq_append_conv)
next
  case True
  obtain resps sel where s: "serve (before_timeout (requests E)) = (resps, sel)"
    by (cases "serve (before_timeout (requests E))")
  show ?thesis
  proof (cases sel)
    case None
    have t: "tr = [GoListenAndServe,
            Printed (''Abra o seguinte link no seu navegador:'' @ nl @ AuthCodeURL config ''state-token'' @ nl)]
          @ map Responded resps @ [TimerFired, LogFatal AuthCodeTimeout]"
      unfolding tr_def getTokenFromWeb_timeout [OF True s [unfolded None]] by (simp add: new_events_def)
    have o: "fst (getTokenFromWeb E config w) = Fatal AuthCodeTimeout"
      by (simp add: getTokenFromWeb_timeout [OF True s [unfolded None]])
    have no_x: "ExchangeCalled c \<notin> set tr" for c unfolding t by auto
    have no_s: "ShutdownCalled \<notin> set tr" unfolding t by auto
    have x: "exchanges tr = []" unfolding t by (simp add: exchanges_append exchanges_Responded)
    have a: "\<forall>pre c post. tr = pre @ ExchangeCalled c # post \<longrightarrow> CodeReceived c \<in> set pre"
      using no_x by (metis in_set_conv_decomp)
    have b: "\<forall>pre post. tr = pre @ ShutdownCalled # post \<longrightarrow> (\<exists>c. CodeReceived c \<in> set pre)"
      using no_s by (metis in_set_conv_decomp)
    show ?thesis using a b x o s None by simp
  next
    case (Some code)
    define A where "A = [GoListenAndServe,
            Printed (''Abra o seguinte link no seu navegador:'' @ nl @ AuthCodeURL config ''state-token'' @ nl)]
          @ map Responded resps"
    define B where "B = ShutdownCalled # (if shutdown_err E then [LogPrinted ErrShutdown] else [])
          @ [ExchangeCalled code]
          @ (case Exchange config code of Inl err \<Rightarrow> [LogFatal (ExchangeFailed err)] | Inr tok \<Rightarrow> [])"
    have t: "tr = A @ CodeReceived code # B"
      unfolding tr_def getTokenFromWeb_code [OF True s [unfolded Some]] A_def B_def
      by (simp add: new_events_def)
    have o: "fst (getTokenFromWeb E config w) =
              (case Exchange config code of Inl err \<Rightarrow> Fatal (ExchangeFailed err) | Inr tok \<Rightarrow> Returned tok)"
      by (simp add: getTokenFromWeb_code [OF True s [unfolded Some]])
    have nA: "ExchangeCalled c \<notin> set A" "ShutdownCalled \<notin> set A" for c
      unfolding A_def by auto
    have xB: "ExchangeCalled c \<in> set B \<Longrightarrow> c = code" for c
      unfolding B_def by (auto split: sum.splits if_splits)
    have a: "\<forall>pre c post. tr = pre @ ExchangeCalled c # post \<longrightarrow> CodeReceived c \<in> set pre"
    proof (intro allI impI)
      fix pre c post assume d: "tr = pre @ ExchangeCalled c # post"
      then have "ExchangeCalled c \<in> set tr" by simp
      then have "c = code" using nA xB unfolding t by auto
      moreover have "CodeReceived code \<in> set pre"
        using split_after [of A "CodeReceived code" B pre "ExchangeCalled c" post] d nA unfolding t by simp
      ultimately show "CodeReceived c \<in> set pre" by simp
    qed
    have b: "\<forall>pre post. tr = pre @ ShutdownCalled # post \<longrightarrow> (\<exists>c. CodeReceived c \<in> set pre)"
    proof (intro allI impI)
      fix pre post assume d: "tr = pre @ ShutdownCalled # post"
      have "CodeReceived code \<in> set pre"
        using split_after [of A "CodeReceived code" B pre ShutdownCalled post] d nA unfolding t by simp
      then show "\<exists>c. CodeReceived c \<in> set pre" by blast
    qed
    have x: "exchanges tr = [code]"
      unfolding t A_def B_def
      by (simp add: exchanges_append exchanges_Responded split: sum.splits)
    have r: "CodeReceived code \<in> set tr" unfolding t by simp
    have e: "\<forall>tok. fst (getTokenFromWeb E config w) = Returned tok \<longrightarrow>
            (\<exists>c. exchanges tr = [c] \<and> CodeReceived c \<in> set tr \<and> Exchange config c = Inr tok)"
      using x r o by (auto split: sum.splits)
    show ?thesis using a b x o e s Some by simp
  qed
qed

theorem exchange_after_code_witness:
  "new_events empty_world (snd (getTokenFromWeb sample_env sample_config empty_world)) =
     [GoListenAndServe,
      Printed (''Abra o seguinte link no seu navegador:'' @ nl
                 @ ''https://auth.example/o/oauth2/auth?state=state-token'' @ nl),
      Responded \<lparr>status = 400, content_type = Some ''text/plain; charset=utf-8'', body = msg_not_found @ nl\<rparr>,
      Responded \<lparr>status = 200, content_type = None, body = msg_received @ nl\<rparr>,
      CodeReceived ''abc123'', ShutdownCalled]
     @ ExchangeCalled ''abc123'' # []
   \<and> CodeReceived ''abc123'' \<in> set
       [GoListenAndServe,
        Printed (''Abra o seguinte link no seu navegador:'' @ nl
                   @ ''https://auth.example/o/oauth2/auth?state=state-token'' @ nl),
        Responded \<lparr>status = 400, content_type = Some ''text/plain; charset=utf-8'', body = msg_not_found @ nl\<rparr>,
        Responded \<lparr>status = 200, content_type = None, body = msg_received @ nl\<rparr>,
        CodeReceived ''abc123'', ShutdownCalled]
   \<and> exchanges (new_events empty_world (snd (getTokenFromWeb sample_env sample_config empty_world)))
       = [''abc123'']
   \<and> Exchange sample_config ''abc123'' = Inr sample_token
   \<and> fst (getTokenFromWeb sample_env sample_config empty_world) = Returned sample_token"
  using exchange_after_code [of empty_world sample_env sample_config]
  by (simp add: getTokenFromWeb_def Let_def sample_env_def sample_config_def handler_def
      FormValue_def Form_def get_without_code_def get_with_code_def http_Error_def emit_def
      emits_def new_events_def empty_world_def before_timeout_def timeout_seconds_def
      sample_token_def zeroToken_def)

end
